theory Spec2Isabelle
  imports Complex_Main
begin

section \<open>Tensors and the torch primitives used by REMBO\<close>

text \<open>
  Tensors hold IEEE double-precision numbers (dtype \<open>torch.float64\<close>), modelled as the
  real numbers they denote. The elementwise arithmetic of \<open>to_01\<close> and \<open>from_01\<close> rounds
  every operation to the nearest double (\<open>fl64\<close> below). Matrix products, whose order of
  summation torch does not fix, and the comparison inside \<open>torch.allclose\<close> are computed
  without rounding. Overflow, infinities and NaN are outside the model. Every exception
  the Python code can raise is a value of \<open>error\<close>; a fallible pure function returns
  \<open>error + 'a\<close> with \<open>Inl\<close> for the exception.
\<close>

datatype error =
    AssertionError
  | ValueError
  | NotImplementedError
  | RuntimeError
  | IndexError
  | CollaboratorError

text \<open>A 1-D tensor is the list of its entries; its shape is its length.\<close>

type_synonym vec = "real list"

text \<open>
  A 2-D tensor carries its column count explicitly, so that a tensor of shape \<open>(0, m)\<close>
  still knows \<open>m\<close>. Its shape is \<open>(nrows X, ncols X)\<close>.
\<close>

datatype tensor = Tensor (ncols: nat) (rows: "vec list")

definition nrows :: "tensor \<Rightarrow> nat" where
  "nrows X = length (rows X)"

definition wf_tensor :: "tensor \<Rightarrow> bool" where
  "wf_tensor X = list_all (\<lambda>r. length r = ncols X) (rows X)"

text \<open>\<open>torch.t\<close> on a 2-D tensor: the transpose. (On a 1-D tensor it is the identity.)\<close>

definition torch_t :: "tensor \<Rightarrow> tensor" where
  "torch_t X = Tensor (nrows X) (map (\<lambda>j. map (\<lambda>r. r ! j) (rows X)) [0..<ncols X])"

definition dot :: "vec \<Rightarrow> vec \<Rightarrow> real" where
  "dot x y = sum_list (map2 (*) x y)"

text \<open>
  \<open>X @ Y\<close> for two 2-D tensors and \<open>X @ v\<close> for a 2-D and a 1-D tensor. torch raises
  RuntimeError when the inner dimensions differ.
\<close>

definition matmul :: "tensor \<Rightarrow> tensor \<Rightarrow> error + tensor" where
  "matmul X Y =
     (if ncols X = nrows Y
      then Inr (Tensor (ncols Y) (map (\<lambda>x. map (\<lambda>c. dot x c) (rows (torch_t Y))) (rows X)))
      else Inl RuntimeError)"

definition matvec :: "tensor \<Rightarrow> vec \<Rightarrow> error + vec" where
  "matvec X v =
     (if ncols X = length v then Inr (map (\<lambda>r. dot r v) (rows X)) else Inl RuntimeError)"

text \<open>\<open>torch.clamp(Z, min=lo, max=hi)\<close> computes \<open>min(max(z, lo), hi)\<close> entrywise.\<close>

definition clamp :: "real \<Rightarrow> real \<Rightarrow> real \<Rightarrow> real" where
  "clamp lo hi z = min (max z lo) hi"

definition torch_clamp_vec :: "vec \<Rightarrow> real \<Rightarrow> real \<Rightarrow> vec" where
  "torch_clamp_vec Z lo hi = map (clamp lo hi) Z"

definition torch_clamp :: "tensor \<Rightarrow> real \<Rightarrow> real \<Rightarrow> tensor" where
  "torch_clamp Z lo hi = Tensor (ncols Z) (map (\<lambda>r. torch_clamp_vec r lo hi) (rows Z))"

text \<open>
  \<open>torch.allclose(input, other)\<close> with the default tolerances \<open>rtol = 1e-05\<close> and
  \<open>atol = 1e-08\<close>: every entry satisfies \<open>|input - other| \<le> atol + rtol * |other|\<close>.
  The two shapes are broadcast against each other (a dimension of size 1 is stretched);
  shapes that cannot be broadcast raise RuntimeError.
\<close>

definition rtol :: real where
  "rtol = 1 / 10 ^ 5"

definition atol :: real where
  "atol = 1 / 10 ^ 8"

definition isclose :: "real \<Rightarrow> real \<Rightarrow> bool" where
  "isclose a b = (\<bar>a - b\<bar> \<le> atol + rtol * \<bar>b\<bar>)"

definition broadcast_dim :: "nat \<Rightarrow> nat \<Rightarrow> nat option" where
  "broadcast_dim a b =
     (if a = b then Some a else if a = 1 then Some b else if b = 1 then Some a else None)"

definition expand :: "nat \<Rightarrow> 'a list \<Rightarrow> 'a list" where
  "expand n xs = (if length xs = 1 then replicate n (hd xs) else xs)"

definition allclose_vec :: "vec \<Rightarrow> vec \<Rightarrow> error + bool" where
  "allclose_vec x y =
     (case broadcast_dim (length x) (length y) of
        None \<Rightarrow> Inl RuntimeError
      | Some n \<Rightarrow> Inr (list_all2 isclose (expand n x) (expand n y)))"

definition torch_allclose :: "tensor \<Rightarrow> tensor \<Rightarrow> error + bool" where
  "torch_allclose X Y =
     (case (broadcast_dim (nrows X) (nrows Y), broadcast_dim (ncols X) (ncols Y)) of
        (Some n, Some m) \<Rightarrow>
          Inr (list_all2 (\<lambda>r r'. list_all2 isclose (expand m r) (expand m r'))
                 (expand n (rows X)) (expand n (rows Y)))
      | _ \<Rightarrow> Inl RuntimeError)"

text \<open>
  \<open>torch.stack\<close> of a list of 1-D tensors: RuntimeError on the empty list and on
  tensors of different sizes.
\<close>

definition torch_stack :: "vec list \<Rightarrow> error + tensor" where
  "torch_stack xs =
     (case xs of
        [] \<Rightarrow> Inl RuntimeError
      | x # ys \<Rightarrow>
          if list_all (\<lambda>y. length y = length x) ys then Inr (Tensor (length x) xs)
          else Inl RuntimeError)"

text \<open>The column assignment \<open>X[:, i] = f(X[:, i])\<close>, for \<open>i\<close> within the column count.\<close>

definition map_col :: "nat \<Rightarrow> (real \<Rightarrow> real) \<Rightarrow> tensor \<Rightarrow> tensor" where
  "map_col i f X = Tensor (ncols X) (map (\<lambda>r. r[i := f (r ! i)]) (rows X))"

subsection \<open>Rounding to double precision\<close>

text \<open>\<open>pow2 e\<close> is \<open>2\<close> to the power \<open>e\<close>, for an integer \<open>e\<close>.\<close>

definition pow2 :: "int \<Rightarrow> real" where
  "pow2 e = (if 0 \<le> e then 2 ^ nat e else 1 / 2 ^ nat (- e))"

text \<open>
  The binary exponent of a positive number \<open>a\<close>: the integer \<open>e\<close> with
  \<open>2\<^sup>e \<le> a < 2\<^sup>e\<^sup>+\<^sup>1\<close>, found by halving (for \<open>a \<ge> 1\<close>) or doubling (for \<open>a < 1\<close>).
\<close>

function expo_ge :: "real \<Rightarrow> int" where
  "expo_ge a = (if a < 2 then 0 else expo_ge (a / 2) + 1)"
  by pat_completeness auto
termination
proof (relation "measure (\<lambda>a. nat \<lfloor>a\<rfloor>)")
  show "wf (measure (\<lambda>a::real. nat \<lfloor>a\<rfloor>))" by simp
next
  fix a :: real
  assume "\<not> a < 2"
  then have "\<lfloor>a / 2\<rfloor> < \<lfloor>a\<rfloor>" and "0 < \<lfloor>a\<rfloor>"
    by linarith+
  then show "(a / 2, a) \<in> measure (\<lambda>a. nat \<lfloor>a\<rfloor>)" by simp
qed

function expo_lt :: "real \<Rightarrow> int" where
  "expo_lt a = (if a \<le> 0 \<or> 1 \<le> a then 0 else expo_lt (2 * a) - 1)"
  by pat_completeness auto
termination
proof (relation "measure (\<lambda>a. nat \<lceil>1 / a\<rceil>)")
  show "wf (measure (\<lambda>a::real. nat \<lceil>1 / a\<rceil>))" by simp
next
  fix a :: real
  assume "\<not> (a \<le> 0 \<or> 1 \<le> a)"
  then have a: "0 < a" "a < 1" by simp_all
  define y where "y = 1 / a"
  from a have y: "1 < y" by (simp add: y_def)
  have half: "1 / (2 * a) = y / 2" by (simp add: y_def)
  have "\<lceil>y / 2\<rceil> < \<lceil>y\<rceil>"
  proof (cases "y \<le> 2")
    case True
    then have "\<lceil>y / 2\<rceil> \<le> 1" by (simp add: ceiling_le_iff)
    moreover from y have "2 \<le> \<lceil>y\<rceil>" by (simp add: le_ceiling_iff)
    ultimately show ?thesis by linarith
  next
    case False
    then have "y / 2 \<le> y - 1" by simp
    then have "\<lceil>y / 2\<rceil> \<le> \<lceil>y - 1\<rceil>" by (rule ceiling_mono)
    also have "\<dots> = \<lceil>y\<rceil> - 1" by simp
    finally show ?thesis by linarith
  qed
  moreover from y have "0 < \<lceil>y\<rceil>" by linarith
  ultimately show "(2 * a, a) \<in> measure (\<lambda>a. nat \<lceil>1 / a\<rceil>)"
    by (simp add: half y_def [symmetric])
qed

declare expo_ge.simps [simp del] expo_lt.simps [simp del]

definition expo :: "real \<Rightarrow> int" where
  "expo a = (if 1 \<le> a then expo_ge a else expo_lt a)"

text \<open>Rounding to the nearest integer, a tie to the even one.\<close>

definition round_even :: "real \<Rightarrow> int" where
  "round_even z =
     (let f = \<lfloor>z\<rfloor>; d = z - of_int f
      in if d < 1 / 2 then f else if 1 / 2 < d then f + 1 else if even f then f else f + 1)"

text \<open>
  \<open>fl64 x\<close> is the double nearest to \<open>x\<close> (round to nearest, ties to even): a multiple
  of the spacing \<open>2\<^sup>e\<^sup>-\<^sup>5\<^sup>2\<close> of the doubles around \<open>x\<close>, and of \<open>2\<^sup>-\<^sup>1\<^sup>0\<^sup>7\<^sup>4\<close> in the subnormal
  range. It is the result of the IEEE operation for \<open>|x| < 2\<^sup>1\<^sup>0\<^sup>2\<^sup>4\<close>; beyond that the
  operation overflows, which is outside the model. \<open>double x\<close> says that \<open>x\<close> is a
  double.
\<close>

definition fl64 :: "real \<Rightarrow> real" where
  "fl64 x =
     (if x = 0 then 0
      else let q = pow2 (max (expo \<bar>x\<bar> - 52) (- 1074))
           in of_int (round_even (x / q)) * q)"

definition double :: "real \<Rightarrow> bool" where
  "double x = (fl64 x = x \<and> \<bar>x\<bar> < 2 ^ 1024)"

section \<open>The REMBO model\<close>

text \<open>
  Opaque Python values (the entries of configuration and metadata dictionaries).
\<close>

typedecl py_object

type_synonym TConfig = "string \<rightharpoonup> py_object"
type_synonym TGenMetadata = "string \<rightharpoonup> py_object"
type_synonym TCandidateMetadata = "(string \<rightharpoonup> py_object) option"

record search_space_digest =
  ssd_feature_names :: "string list"
  ssd_bounds :: "(real \<times> real) list"
  ssd_task_features :: "int list"
  ssd_fidelity_features :: "int list"

text \<open>
  The superclass \<open>BotorchModel\<close> is not part of the source under verification. Its
  methods are parameters: each takes the superclass's part of the object state \<open>'c\<close> and
  returns the state after the call together with a result or an exception.
\<close>

record 'c botorch_model =
  super_fit :: "'c \<Rightarrow> tensor list \<Rightarrow> tensor list \<Rightarrow> tensor list \<Rightarrow> search_space_digest
     \<Rightarrow> string list \<Rightarrow> TCandidateMetadata list list option \<Rightarrow> (error + unit) \<times> 'c"
  super_predict :: "'c \<Rightarrow> tensor \<Rightarrow> (error + tensor \<times> vec list list) \<times> 'c"
  super_gen :: "'c \<Rightarrow> int \<Rightarrow> (real \<times> real) list \<Rightarrow> vec \<Rightarrow> (tensor \<times> tensor) option
     \<Rightarrow> TConfig option
     \<Rightarrow> (error + tensor \<times> vec \<times> TGenMetadata \<times> TCandidateMetadata list option) \<times> 'c"
  super_best_point :: "'c \<Rightarrow> (real \<times> real) list \<Rightarrow> vec \<Rightarrow> (tensor \<times> tensor) option
     \<Rightarrow> TConfig option \<Rightarrow> (error + vec option) \<times> 'c"
  super_cross_validate :: "'c \<Rightarrow> tensor list \<Rightarrow> tensor list \<Rightarrow> tensor list \<Rightarrow> tensor
     \<Rightarrow> (error + tensor \<times> vec list list) \<times> 'c"
  super_update :: "'c \<Rightarrow> tensor list \<Rightarrow> tensor list \<Rightarrow> tensor list
     \<Rightarrow> TCandidateMetadata list list option \<Rightarrow> (error + unit) \<times> 'c"

text \<open>
  The object state of a \<open>REMBO\<close> instance. \<open>self_super\<close> is the part owned by the
  superclass.
\<close>

record 'c rembo =
  self_A :: tensor
  self_pinvA :: tensor
  self_X_d :: "vec list"
  self_X_d_gen :: "vec list"
  self_bounds_d :: "(real \<times> real) list"
  self_num_outputs :: nat
  self_super :: 'c

text \<open>
  \<open>__init__\<close>. \<open>torch.pinverse\<close> is a parameter (\<open>pinverse\<close>), and \<open>super_init\<close> is the
  state that \<open>super().__init__(**kwargs)\<close> sets up.
\<close>

definition init :: "(tensor \<Rightarrow> tensor) \<Rightarrow> 'c \<Rightarrow> tensor \<Rightarrow> tensor \<Rightarrow> (real \<times> real) list \<Rightarrow> 'c rembo" where
  "init pinverse super_init A initial_X_d bounds_d =
     \<lparr> self_A = A,
       self_pinvA = pinverse A,
       self_X_d = rows initial_X_d,
       self_X_d_gen = [],
       self_bounds_d = bounds_d,
       self_num_outputs = 0,
       self_super = super_init \<rparr>"

subsection \<open>to_01 and from_01\<close>

text \<open>
  The entrywise computations \<open>(x - lb) / (ub - lb)\<close> and \<open>x * (ub - lb) + lb\<close>: each of
  the three operations is rounded to a double. In the model \<open>x / 0 = 0\<close>, where torch
  yields an infinity or NaN without raising, so \<open>to_01\<close> is only meaningful for bounds
  with \<open>ub \<noteq> lb\<close>.
\<close>

definition to_01_entry :: "real \<Rightarrow> real \<Rightarrow> real \<Rightarrow> real" where
  "to_01_entry lb ub x = fl64 (fl64 (x - lb) / fl64 (ub - lb))"

definition from_01_entry :: "real \<Rightarrow> real \<Rightarrow> real \<Rightarrow> real" where
  "from_01_entry lb ub x = fl64 (fl64 (x * fl64 (ub - lb)) + lb)"

text \<open>
  The loops run over \<open>enumerate(self.bounds_d)\<close>; assigning to a column past the last
  one raises IndexError.
\<close>

fun to_01_loop :: "nat \<Rightarrow> (real \<times> real) list \<Rightarrow> tensor \<Rightarrow> error + tensor" where
  "to_01_loop i [] X_d01 = Inr X_d01"
| "to_01_loop i ((lb, ub) # bs) X_d01 =
     (if i < ncols X_d01
      then to_01_loop (Suc i) bs (map_col i (to_01_entry lb ub) X_d01)
      else Inl IndexError)"

definition to_01 :: "'c rembo \<Rightarrow> tensor \<Rightarrow> error + tensor" where
  "to_01 self X_d = to_01_loop 0 (self_bounds_d self) X_d"

fun from_01_loop :: "nat \<Rightarrow> (real \<times> real) list \<Rightarrow> tensor \<Rightarrow> error + tensor" where
  "from_01_loop i [] X_d = Inr X_d"
| "from_01_loop i ((lb, ub) # bs) X_d =
     (if i < ncols X_d
      then from_01_loop (Suc i) bs (map_col i (from_01_entry lb ub) X_d)
      else Inl IndexError)"

definition from_01 :: "'c rembo \<Rightarrow> tensor \<Rightarrow> error + tensor" where
  "from_01 self X_d01 = from_01_loop 0 (self_bounds_d self) X_d01"

subsection \<open>project_up\<close>

text \<open>
  \<open>project_up\<close> is called on 2-D tensors (\<open>gen\<close>, \<open>best_point\<close>) and on the 1-D entries
  of the store (\<open>project_down\<close>); on a 1-D tensor \<open>torch.t\<close> is the identity and \<open>@\<close> is
  the matrix-vector product.
\<close>

definition project_up :: "'c rembo \<Rightarrow> tensor \<Rightarrow> error + tensor" where
  "project_up self X =
     (case matmul (self_A self) (torch_t X) of
        Inl e \<Rightarrow> Inl e
      | Inr Z \<Rightarrow> Inr (torch_clamp (torch_t Z) (- 1) 1))"

definition project_up_vec :: "'c rembo \<Rightarrow> vec \<Rightarrow> error + vec" where
  "project_up_vec self X =
     (case matvec (self_A self) X of
        Inl e \<Rightarrow> Inl e
      | Inr Z \<Rightarrow> Inr (torch_clamp_vec Z (- 1) 1))"

subsection \<open>project_down\<close>

text \<open>
  The inner loop of \<open>project_down\<close>: the first index in \<open>unmatched\<close> whose stored point
  projects to within tolerance of \<open>x_D\<close>, \<open>None\<close> when the loop ends without a match.
\<close>

fun find_match :: "'c rembo \<Rightarrow> vec \<Rightarrow> nat list \<Rightarrow> error + nat option" where
  "find_match self x_D [] = Inr None"
| "find_match self x_D (d_idx # unmatched) =
     (case project_up_vec self (self_X_d self ! d_idx) of
        Inl e \<Rightarrow> Inl e
      | Inr Z \<Rightarrow>
          (case allclose_vec x_D Z of
             Inl e \<Rightarrow> Inl e
           | Inr close \<Rightarrow> if close then Inr (Some d_idx) else find_match self x_D unmatched))"

text \<open>
  The outer loop over the rows of \<open>X_D\<close>; \<open>unmatched.remove(idx_match)\<close> removes the
  first occurrence.
\<close>

fun project_down_loop :: "'c rembo \<Rightarrow> vec list \<Rightarrow> nat list \<Rightarrow> vec list \<Rightarrow> error + vec list" where
  "project_down_loop self [] unmatched X_d = Inr X_d"
| "project_down_loop self (x_D # X_D) unmatched X_d =
     (case find_match self x_D unmatched of
        Inl e \<Rightarrow> Inl e
      | Inr None \<Rightarrow> Inl ValueError
      | Inr (Some idx_match) \<Rightarrow>
          project_down_loop self X_D (remove1 idx_match unmatched)
            (X_d @ [self_X_d self ! idx_match]))"

definition project_down :: "'c rembo \<Rightarrow> tensor \<Rightarrow> error + tensor" where
  "project_down self X_D =
     (case project_down_loop self (rows X_D) [0..<length (self_X_d self)] [] of
        Inl e \<Rightarrow> Inl e
      | Inr X_d \<Rightarrow> torch_stack X_d)"

subsection \<open>_get_single_X\<close>

fun get_single_X_loop :: "tensor \<Rightarrow> tensor list \<Rightarrow> error + unit" where
  "get_single_X_loop X [] = Inr ()"
| "get_single_X_loop X (Xi # Xs) =
     (case torch_allclose X Xi of
        Inl e \<Rightarrow> Inl e
      | Inr close \<Rightarrow> if close then get_single_X_loop X Xs else Inl AssertionError)"

text \<open>\<open>Xs[0]\<close> raises IndexError on the empty list.\<close>

definition get_single_X :: "tensor list \<Rightarrow> error + tensor" where
  "get_single_X Xs =
     (case Xs of
        [] \<Rightarrow> Inl IndexError
      | X # rest \<Rightarrow> (case get_single_X_loop X rest of Inl e \<Rightarrow> Inl e | Inr _ \<Rightarrow> Inr X))"

subsection \<open>The public operations\<close>

text \<open>
  Each operation takes the superclass's methods and the object state and returns the
  result or the exception together with the state after the call. Design matrices and
  query points are 2-D tensors, weights and single points are 1-D tensors.
\<close>

text \<open>The state after a call into the superclass.\<close>

definition delegated :: "'c rembo \<Rightarrow> 'a \<times> 'c \<Rightarrow> 'a \<times> 'c rembo" where
  "delegated self rc = (fst rc, self\<lparr>self_super := snd rc\<rparr>)"

text \<open>\<open>for b in bounds: assert b == (-1, 1)\<close>\<close>

definition bounds_ok :: "(real \<times> real) list \<Rightarrow> bool" where
  "bounds_ok bounds = list_all (\<lambda>b. b = (- 1, 1)) bounds"

text \<open>The decimal digits of \<open>i\<close>, for the feature names \<open>f"x{i}"\<close>.\<close>

fun str :: "nat \<Rightarrow> string" where
  "str i = (if i < 10 then [char_of (48 + i)] else str (i div 10) @ [char_of (48 + i mod 10)])"

declare str.simps [simp del]

definition fit :: "'c botorch_model \<Rightarrow> 'c rembo \<Rightarrow> tensor list \<Rightarrow> tensor list \<Rightarrow> tensor list
    \<Rightarrow> search_space_digest \<Rightarrow> string list \<Rightarrow> TCandidateMetadata list list option
    \<Rightarrow> (error + unit) \<times> 'c rembo" where
  "fit super self Xs Ys Yvars search_space_digest metric_names candidate_metadata =
     (if length (ssd_task_features search_space_digest) \<noteq> 0 then (Inl AssertionError, self)
      else if length (ssd_fidelity_features search_space_digest) \<noteq> 0
        then (Inl AssertionError, self)
      else if \<not> bounds_ok (ssd_bounds search_space_digest) then (Inl AssertionError, self)
      else
        let self = self\<lparr>self_num_outputs := length Xs\<rparr> in
        case get_single_X Xs of
          Inl e \<Rightarrow> (Inl e, self)
        | Inr X_D \<Rightarrow>
            (case project_down self X_D of
               Inl e \<Rightarrow> (Inl e, self)
             | Inr X_d \<Rightarrow>
                 (case to_01 self X_d of
                    Inl e \<Rightarrow> (Inl e, self)
                  | Inr X_d01 \<Rightarrow>
                      delegated self
                        (super_fit super (self_super self)
                           (replicate (self_num_outputs self) X_d01) Ys Yvars
                           \<lparr> ssd_feature_names =
                               map (\<lambda>i. ''x'' @ str i) [0..<ncols (self_A self)],
                             ssd_bounds = replicate (length (self_bounds_d self)) (0, 1),
                             ssd_task_features = ssd_task_features search_space_digest,
                             ssd_fidelity_features =
                               ssd_fidelity_features search_space_digest \<rparr>
                           metric_names candidate_metadata))))"

text \<open>The low-dimensional coordinates that \<open>predict\<close> computes before normalizing.\<close>

definition predict_X_d :: "'c rembo \<Rightarrow> tensor \<Rightarrow> error + tensor" where
  "predict_X_d self X =
     (if ncols X = ncols (self_A self) then Inr X
      else
        case matmul X (torch_t (self_pinvA self)) of
          Inl e \<Rightarrow> Inl e
        | Inr X_d \<Rightarrow>
            (case matmul X_d (torch_t (self_A self)) of
               Inl e \<Rightarrow> Inl e
             | Inr X_up \<Rightarrow>
                 (case torch_allclose X X_up of
                    Inl e \<Rightarrow> Inl e
                  | Inr close \<Rightarrow> if \<not> close then Inl NotImplementedError else Inr X_d)))"

definition predict :: "'c botorch_model \<Rightarrow> 'c rembo \<Rightarrow> tensor
    \<Rightarrow> (error + tensor \<times> vec list list) \<times> 'c rembo" where
  "predict super self X =
     (case predict_X_d self X of
        Inl e \<Rightarrow> (Inl e, self)
      | Inr X_d \<Rightarrow>
          (case to_01 self X_d of
             Inl e \<Rightarrow> (Inl e, self)
           | Inr X_d01 \<Rightarrow> delegated self (super_predict super (self_super self) X_d01)))"

definition gen :: "'c botorch_model \<Rightarrow> 'c rembo \<Rightarrow> int \<Rightarrow> (real \<times> real) list \<Rightarrow> vec
    \<Rightarrow> (tensor \<times> tensor) option \<Rightarrow> (tensor \<times> tensor) option \<Rightarrow> (nat \<rightharpoonup> real) option
    \<Rightarrow> tensor list option \<Rightarrow> TConfig option \<Rightarrow> (tensor \<Rightarrow> tensor) option
    \<Rightarrow> (nat \<rightharpoonup> real) option
    \<Rightarrow> (error + tensor \<times> vec \<times> TGenMetadata \<times> TCandidateMetadata list option) \<times> 'c rembo" where
  "gen super self n bounds objective_weights outcome_constraints linear_constraints
       fixed_features pending_observations model_gen_options rounding_func target_fidelities =
     (if \<not> bounds_ok bounds then (Inl AssertionError, self)
      else if linear_constraints \<noteq> None then (Inl AssertionError, self)
      else if fixed_features \<noteq> None then (Inl AssertionError, self)
      else if pending_observations \<noteq> None then (Inl AssertionError, self)
      else
        case super_gen super (self_super self) n
               (replicate (length (self_bounds_d self)) (0, 1))
               objective_weights outcome_constraints model_gen_options of
          (Inl e, c) \<Rightarrow> (Inl e, self\<lparr>self_super := c\<rparr>)
        | (Inr (Xopt_01, w, gen_metadata, candidate_metadata), c) \<Rightarrow>
            let self = self\<lparr>self_super := c\<rparr> in
            (case from_01 self Xopt_01 of
               Inl e \<Rightarrow> (Inl e, self)
             | Inr Xopt \<Rightarrow>
                 let self = self\<lparr>self_X_d := self_X_d self @ rows Xopt\<rparr>;
                     self = self\<lparr>self_X_d_gen := self_X_d_gen self @ rows Xopt\<rparr>
                 in
                 (case project_up self Xopt of
                    Inl e \<Rightarrow> (Inl e, self)
                  | Inr Z \<Rightarrow> (Inr (Z, w, Map.empty, None), self))))"

text \<open>
  \<open>unsqueeze(0)\<close> turns a 1-D tensor into a one-row 2-D tensor; \<open>squeeze(0)\<close> drops the
  first dimension when its size is 1 and otherwise returns the tensor as it is.
\<close>

datatype any_tensor = T1 vec | T2 tensor

definition unsqueeze0 :: "vec \<Rightarrow> tensor" where
  "unsqueeze0 x = Tensor (length x) [x]"

definition squeeze0 :: "tensor \<Rightarrow> any_tensor" where
  "squeeze0 X = (case rows X of [r] \<Rightarrow> T1 r | _ \<Rightarrow> T2 X)"

definition best_point :: "'c botorch_model \<Rightarrow> 'c rembo \<Rightarrow> (real \<times> real) list \<Rightarrow> vec
    \<Rightarrow> (tensor \<times> tensor) option \<Rightarrow> (tensor \<times> tensor) option \<Rightarrow> (nat \<rightharpoonup> real) option
    \<Rightarrow> TConfig option \<Rightarrow> (nat \<rightharpoonup> real) option
    \<Rightarrow> (error + any_tensor option) \<times> 'c rembo" where
  "best_point super self bounds objective_weights outcome_constraints linear_constraints
       fixed_features model_gen_options target_fidelities =
     (if \<not> bounds_ok bounds then (Inl AssertionError, self)
      else if linear_constraints \<noteq> None then (Inl AssertionError, self)
      else if fixed_features \<noteq> None then (Inl AssertionError, self)
      else
        case super_best_point super (self_super self) (self_bounds_d self)
               objective_weights outcome_constraints model_gen_options of
          (Inl e, c) \<Rightarrow> (Inl e, self\<lparr>self_super := c\<rparr>)
        | (Inr None, c) \<Rightarrow> (Inr None, self\<lparr>self_super := c\<rparr>)
        | (Inr (Some x_best), c) \<Rightarrow>
            let self = self\<lparr>self_super := c\<rparr> in
            (case from_01 self (unsqueeze0 x_best) of
               Inl e \<Rightarrow> (Inl e, self)
             | Inr X \<Rightarrow>
                 (case project_up self X of
                    Inl e \<Rightarrow> (Inl e, self)
                  | Inr Z \<Rightarrow> (Inr (Some (squeeze0 Z)), self))))"

definition cross_validate :: "'c botorch_model \<Rightarrow> 'c rembo \<Rightarrow> tensor list \<Rightarrow> tensor list
    \<Rightarrow> tensor list \<Rightarrow> tensor \<Rightarrow> (error + tensor \<times> vec list list) \<times> 'c rembo" where
  "cross_validate super self Xs_train Ys_train Yvars_train X_test =
     (case get_single_X Xs_train of
        Inl e \<Rightarrow> (Inl e, self)
      | Inr X_D \<Rightarrow>
          (case project_down self X_D of
             Inl e \<Rightarrow> (Inl e, self)
           | Inr X_train_d \<Rightarrow>
               (case project_down self X_test of
                  Inl e \<Rightarrow> (Inl e, self)
                | Inr X_test_d \<Rightarrow>
                    (case to_01 self X_train_d of
                       Inl e \<Rightarrow> (Inl e, self)
                     | Inr X_train_d01 \<Rightarrow>
                         (case to_01 self X_test_d of
                            Inl e \<Rightarrow> (Inl e, self)
                          | Inr X_test_d01 \<Rightarrow>
                              delegated self
                                (super_cross_validate super (self_super self)
                                   (replicate (self_num_outputs self) X_train_d01)
                                   Ys_train Yvars_train X_test_d01))))))"

definition update :: "'c botorch_model \<Rightarrow> 'c rembo \<Rightarrow> tensor list \<Rightarrow> tensor list \<Rightarrow> tensor list
    \<Rightarrow> TCandidateMetadata list list option \<Rightarrow> (error + unit) \<times> 'c rembo" where
  "update super self Xs Ys Yvars candidate_metadata =
     (case get_single_X Xs of
        Inl e \<Rightarrow> (Inl e, self)
      | Inr X_D \<Rightarrow>
          (case project_down self X_D of
             Inl e \<Rightarrow> (Inl e, self)
           | Inr X_d \<Rightarrow>
               (case to_01 self X_d of
                  Inl e \<Rightarrow> (Inl e, self)
                | Inr X_d01 \<Rightarrow>
                    delegated self
                      (super_update super (self_super self)
                         (replicate (self_num_outputs self) X_d01) Ys Yvars
                         candidate_metadata))))"

section \<open>Predicates used in the statements\<close>

text \<open>
  Both the correspondence store and the generated log of \<open>self'\<close> are those of \<open>self\<close>
  followed by the points \<open>new\<close>.
\<close>

definition appended :: "'c rembo \<Rightarrow> vec list \<Rightarrow> 'c rembo \<Rightarrow> bool" where
  "appended self new self' =
     (self_X_d self' = self_X_d self @ new \<and> self_X_d_gen self' = self_X_d_gen self @ new)"

text \<open>
  Every row of \<open>X\<close> lies inside the box: its entry in column \<open>i\<close> is between the \<open>i\<close>-th
  lower and upper bound.
\<close>

definition inside_box :: "(real \<times> real) list \<Rightarrow> tensor \<Rightarrow> bool" where
  "inside_box bounds X =
     list_all (\<lambda>r. list_all2 (\<lambda>(lb, ub) x. lb \<le> x \<and> x \<le> ub) bounds (take (length bounds) r))
       (rows X)"

text \<open>
  The four Penrose equations, which characterise \<open>P\<close> as the pseudo-inverse of \<open>A\<close>; they
  are used to check the pseudo-inverse of the example below.
\<close>

definition is_pinverse :: "tensor \<Rightarrow> tensor \<Rightarrow> bool" where
  "is_pinverse A P =
     (case (matmul A P, matmul P A) of
        (Inr AP, Inr PA) \<Rightarrow>
          matmul AP A = Inr A \<and> matmul PA P = Inr P \<and> torch_t AP = AP \<and> torch_t PA = PA
      | _ \<Rightarrow> False)"

section \<open>A concrete model\<close>

text \<open>
  The scenario of the specification: \<open>D = 3\<close>, \<open>d = 1\<close>, \<open>A = [[1],[0],[0]]\<close>,
  \<open>bounds_d = [(-1, 1)]\<close> and the initial low-dimensional points \<open>[[0.0],[0.5]]\<close>. The
  pseudo-inverse of \<open>A\<close> is \<open>[[1, 0, 0]]\<close>.
\<close>

definition A_ex :: tensor where
  "A_ex = Tensor 1 [[1], [0], [0]]"

definition pinvA_ex :: tensor where
  "pinvA_ex = Tensor 3 [[1, 0, 0]]"

text \<open>
  A stand-in for the superclass whose state is the log of the design matrices it was
  given: \<open>fit\<close>, \<open>update\<close> and \<open>cross_validate\<close> record their training matrices,
  \<open>predict\<close> its input. \<open>gen\<close> returns \<open>n\<close> copies of the point three quarters of the
  way through the box it is given, the objective weights as weights, and a non-empty
  candidate metadata list.
\<close>

definition super_ex :: "tensor list list botorch_model" where
  "super_ex =
     \<lparr> super_fit = (\<lambda>c Xs Ys Yvars digest names metadata. (Inr (), c @ [Xs])),
       super_predict = (\<lambda>c X. (Inr (X, []), c @ [[X]])),
       super_gen = (\<lambda>c n bounds weights constraints options.
          (Inr (Tensor (length bounds)
                  (replicate (nat n) (map (\<lambda>(lb, ub). lb + 3 * (ub - lb) / 4) bounds)),
                weights, Map.empty, Some [None]), c)),
       super_best_point = (\<lambda>c bounds weights constraints options.
          (Inr (Some (map (\<lambda>b. 1 / 2) bounds)), c)),
       super_cross_validate = (\<lambda>c Xs Ys Yvars X. (Inr (X, []), c @ [Xs @ [X]])),
       super_update = (\<lambda>c Xs Ys Yvars metadata. (Inr (), c @ [Xs])) \<rparr>"

definition rembo_ex :: "tensor list list rembo" where
  "rembo_ex = init (\<lambda>A. pinvA_ex) [] A_ex (Tensor 1 [[0], [1 / 2]]) [(- 1, 1)]"

text \<open>A digest that passes the preconditions of \<open>fit\<close>.\<close>

definition digest_ex :: search_space_digest where
  "digest_ex =
     \<lparr> ssd_feature_names = [''a'', ''b'', ''c''],
       ssd_bounds = [(- 1, 1), (- 1, 1), (- 1, 1)],
       ssd_task_features = [],
       ssd_fidelity_features = [] \<rparr>"

section \<open>Basic facts about the tensor primitives\<close>

lemma nrows_torch_t [simp]: "nrows (torch_t X) = ncols X"
  by (simp add: nrows_def torch_t_def)

lemma ncols_torch_t [simp]: "ncols (torch_t X) = nrows X"
  by (simp add: torch_t_def)

lemma clamp_range: "- 1 \<le> clamp (- 1) 1 z \<and> clamp (- 1) 1 z \<le> 1"
  by (simp add: clamp_def)

lemma isclose_refl: "isclose a a"
  by (simp add: isclose_def atol_def rtol_def)

lemma allclose_vec_refl: "allclose_vec x x = Inr True"
  by (simp add: allclose_vec_def broadcast_dim_def list_all2_same isclose_refl)

lemma torch_allclose_refl: "torch_allclose X X = Inr True"
  by (simp add: torch_allclose_def broadcast_dim_def list_all2_same isclose_refl)

lemma rows_torch_t_torch_t:
  assumes "wf_tensor X"
  shows "rows (torch_t (torch_t X)) = rows X"
proof (rule nth_equalityI)
  show "length (rows (torch_t (torch_t X))) = length (rows X)"
    by (simp add: torch_t_def nrows_def)
next
  fix j assume "j < length (rows (torch_t (torch_t X)))"
  then have j: "j < length (rows X)" by (simp add: torch_t_def nrows_def)
  with assms have len: "length (rows X ! j) = ncols X"
    by (simp add: wf_tensor_def list_all_length)
  have "rows (torch_t (torch_t X)) ! j = map (\<lambda>i. rows X ! j ! i) [0..<ncols X]"
    using j by (simp add: torch_t_def nrows_def)
  also have "\<dots> = rows X ! j"
    using len by (metis map_nth)
  finally show "rows (torch_t (torch_t X)) ! j = rows X ! j" .
qed

lemma pinvA_ex_is_pinverse: "is_pinverse A_ex pinvA_ex"
  by (simp add: is_pinverse_def A_ex_def pinvA_ex_def matmul_def torch_t_def nrows_def dot_def
      upt_rec)

section \<open>project_up\<close>

text \<open>The 2-D projection is the 1-D projection of every row.\<close>

lemma project_up_rows:
  assumes "wf_tensor X" and "ncols X = ncols (self_A self)"
  shows "project_up self X =
           Inr (Tensor (nrows (self_A self))
                  (map (\<lambda>x. torch_clamp_vec (map (\<lambda>a. dot a x) (rows (self_A self))) (- 1) 1)
                     (rows X)))"
proof -
  let ?A = "self_A self"
  let ?M = "Tensor (nrows X) (map (\<lambda>a. map (\<lambda>c. dot a c) (rows X)) (rows ?A))"
  have M: "matmul ?A (torch_t X) = Inr ?M"
    using assms by (simp add: matmul_def rows_torch_t_torch_t)
  have "rows (torch_t ?M) = map (\<lambda>x. map (\<lambda>a. dot a x) (rows ?A)) (rows X)"
    by (rule nth_equalityI) (simp_all add: torch_t_def nrows_def)
  then have "torch_t ?M = Tensor (nrows ?A) (map (\<lambda>x. map (\<lambda>a. dot a x) (rows ?A)) (rows X))"
    by (intro tensor.expand) (simp add: nrows_def)
  then show ?thesis
    by (simp add: project_up_def M torch_clamp_def)
qed

lemma project_up_vec_eq:
  "length x = ncols (self_A self) \<Longrightarrow>
   project_up_vec self x =
     Inr (torch_clamp_vec (map (\<lambda>a. dot a x) (rows (self_A self))) (- 1) 1)"
  by (simp add: project_up_vec_def matvec_def)

text \<open>
  C5. Projection range: for every low-dimensional input matrix \<open>X\<close> (a 2-D tensor with
  as many columns as \<open>A\<close>), \<open>project_up(X)\<close> returns a tensor with one row of length
  \<open>D\<close> per row of \<open>X\<close>, and every coordinate of it lies in the interval \<open>[-1, 1]\<close>.
\<close>

theorem project_up_range:
  assumes "ncols X = ncols (self_A self)"
  shows "\<exists>Z. project_up self X = Inr Z \<and> nrows Z = nrows X \<and> ncols Z = nrows (self_A self)
           \<and> (\<forall>r \<in> set (rows Z). \<forall>z \<in> set r. - 1 \<le> z \<and> z \<le> 1)"
  using assms
  by (auto simp: project_up_def matmul_def torch_clamp_def torch_clamp_vec_def clamp_range
      nrows_def torch_t_def)

theorem project_up_range_witness:
  "ncols (Tensor 1 [[1 / 2], [3], [- 2]]) = ncols (self_A rembo_ex)
   \<and> project_up rembo_ex (Tensor 1 [[1 / 2], [3], [- 2]])
       = Inr (Tensor 3 [[1 / 2, 0, 0], [1, 0, 0], [- 1, 0, 0]])
   \<and> (\<exists>Z. project_up rembo_ex (Tensor 1 [[1 / 2], [3], [- 2]]) = Inr Z
         \<and> nrows Z = nrows (Tensor 1 [[1 / 2], [3], [- 2]])
         \<and> ncols Z = nrows (self_A rembo_ex)
         \<and> (\<forall>r \<in> set (rows Z). \<forall>z \<in> set r. - 1 \<le> z \<and> z \<le> 1))"
proof -
  have h: "ncols (Tensor 1 [[1 / 2], [3], [- 2]]) = ncols (self_A rembo_ex)"
    by (simp add: rembo_ex_def init_def A_ex_def)
  have e: "project_up rembo_ex (Tensor 1 [[1 / 2], [3], [- 2]])
       = Inr (Tensor 3 [[1 / 2, 0, 0], [1, 0, 0], [- 1, 0, 0]])"
    by (simp add: rembo_ex_def init_def A_ex_def project_up_def matmul_def torch_t_def
        nrows_def dot_def torch_clamp_def torch_clamp_vec_def clamp_def upt_rec)
  from h e project_up_range [OF h] show ?thesis by blast
qed

section \<open>to_01 and from_01\<close>

lemma ncols_map_col [simp]: "ncols (map_col i f X) = ncols X"
  by (simp add: map_col_def)

text \<open>
  The rounded entry computations on the values of the concrete model; all of them are
  exact there.
\<close>

lemma to_01_entry_5: "to_01_entry (- 1) 1 5 = 3"
  by code_simp

lemma to_01_entry_m7: "to_01_entry (- 1) 1 (- 7) = - 3"
  by code_simp

lemma to_01_entry_half: "to_01_entry (- 1) 1 (1 / 2) = 3 / 4"
  by code_simp

lemma to_01_entry_0: "to_01_entry (- 1) 1 0 = 1 / 2"
  by code_simp

lemma to_01_entry_2: "to_01_entry (- 1) 1 2 = 3 / 2"
  by code_simp

lemma from_01_entry_3_4: "from_01_entry (- 1) 1 (3 / 4) = 1 / 2"
  by code_simp

lemmas entry_eval = to_01_entry_5 to_01_entry_m7 to_01_entry_half to_01_entry_0
  to_01_entry_2 from_01_entry_3_4

subsection \<open>Rounding\<close>

lemma pow2_powr: "pow2 e = 2 powr (of_int e)"
  by (simp add: pow2_def powr_realpow [symmetric] powr_minus divide_inverse)

lemma pow2_pos [simp]: "0 < pow2 e"
  by (simp add: pow2_powr)

lemma pow2_nonneg [simp]: "0 \<le> pow2 e"
  by (simp add: less_imp_le)

lemma pow2_nonzero [simp]: "pow2 e \<noteq> 0"
  by (simp add: pow2_powr)

lemma pow2_Suc: "pow2 (e + 1) = 2 * pow2 e"
  by (simp add: pow2_powr powr_add)

lemma pow2_diff: "pow2 (e - 1) = pow2 e / 2"
  using pow2_Suc [of "e - 1"] by simp

lemma pow2_mono: "e \<le> e' \<Longrightarrow> pow2 e \<le> pow2 e'"
  by (simp add: pow2_powr)

lemma pow2_add: "pow2 (e + e') = pow2 e * pow2 e'"
  by (simp add: pow2_powr powr_add)

lemma expo_ge_bounds:
  "1 \<le> a \<Longrightarrow> pow2 (expo_ge a) \<le> a \<and> a < 2 * pow2 (expo_ge a)"
proof (induction a rule: expo_ge.induct)
  case (1 a)
  show ?case
  proof (cases "a < 2")
    case True
    with "1.prems" show ?thesis by (simp add: expo_ge.simps [of a] pow2_def)
  next
    case False
    then have "1 \<le> a / 2" by simp
    from "1.IH" [OF False this] False show ?thesis
      by (simp add: expo_ge.simps [of a] pow2_Suc)
  qed
qed

lemma expo_lt_bounds:
  "0 < a \<Longrightarrow> a < 1 \<Longrightarrow> pow2 (expo_lt a) \<le> a \<and> a < 2 * pow2 (expo_lt a)"
proof (induction a rule: expo_lt.induct)
  case (1 a)
  then have step: "\<not> (a \<le> 0 \<or> 1 \<le> a)" by simp
  show ?case
  proof (cases "2 * a < 1")
    case True
    from "1.IH" [OF step _ True] "1.prems" show ?thesis
      by (simp add: expo_lt.simps [of a] pow2_diff)
  next
    case False
    then have "expo_lt (2 * a) = 0" by (simp add: expo_lt.simps [of "2 * a"])
    with False "1.prems" show ?thesis
      by (simp add: expo_lt.simps [of a] pow2_def)
  qed
qed

lemma expo_bounds: "0 < a \<Longrightarrow> pow2 (expo a) \<le> a \<and> a < 2 * pow2 (expo a)"
  using expo_ge_bounds [of a] expo_lt_bounds [of a] by (simp add: expo_def)

lemma round_even_error: "\<bar>of_int (round_even z) - z\<bar> \<le> 1 / 2"
  unfolding round_even_def Let_def by (auto; linarith)

lemma fl64_quantum:
  assumes "x \<noteq> 0"
  shows "\<bar>fl64 x - x\<bar> \<le> pow2 (max (expo \<bar>x\<bar> - 52) (- 1074)) / 2"
proof -
  let ?q = "pow2 (max (expo \<bar>x\<bar> - 52) (- 1074))"
  have q: "0 < ?q" by simp
  have "fl64 x - x = (of_int (round_even (x / ?q)) - x / ?q) * ?q"
    using assms q by (simp add: fl64_def Let_def algebra_simps)
  then have "\<bar>fl64 x - x\<bar> = \<bar>of_int (round_even (x / ?q)) - x / ?q\<bar> * ?q"
    using q by (simp add: abs_mult)
  also have "\<dots> \<le> 1 / 2 * ?q"
    using q round_even_error [of "x / ?q"] by (intro mult_right_mono) simp_all
  finally show ?thesis by simp
qed

text \<open>
  The standard model of floating-point arithmetic with gradual underflow: the relative
  error of a rounding is at most \<open>2\<^sup>-\<^sup>5\<^sup>3\<close>, up to half a subnormal spacing.
\<close>

lemma fl64_error: "\<bar>fl64 x - x\<bar> \<le> \<bar>x\<bar> / 2 ^ 53 + 1 / 2 ^ 1075"
proof (cases "x = 0")
  case True
  then show ?thesis by (simp add: fl64_def)
next
  case False
  let ?e = "expo \<bar>x\<bar>"
  from False have "pow2 ?e \<le> \<bar>x\<bar>" using expo_bounds [of "\<bar>x\<bar>"] by simp
  moreover have "pow2 (?e - 52) = pow2 ?e * pow2 (- 52)"
    using pow2_add [of ?e "- 52"] by simp
  moreover have "pow2 (- 52) = 1 / 2 ^ 52" by (simp add: pow2_def)
  ultimately have a: "pow2 (?e - 52) \<le> \<bar>x\<bar> / 2 ^ 52" by simp
  have b: "pow2 (- 1074) = 1 / 2 ^ 1074" by (simp add: pow2_def)
  have "pow2 (max (?e - 52) (- 1074)) \<le> pow2 (?e - 52) + pow2 (- 1074)"
    by (cases "?e - 52 \<le> - 1074") (simp_all add: max_def less_imp_le)
  with a b have "pow2 (max (?e - 52) (- 1074)) / 2 \<le> (\<bar>x\<bar> / 2 ^ 52 + 1 / 2 ^ 1074) / 2"
    by simp
  also have "\<dots> = \<bar>x\<bar> / 2 ^ 53 + 1 / 2 ^ 1075" by simp
  finally show ?thesis using fl64_quantum [OF False] by linarith
qed

lemma fl64_multiple: "\<exists>z::int. fl64 x = of_int z * pow2 (- 1074)"
proof (cases "x = 0")
  case True
  then show ?thesis by (intro exI [of _ 0]) (simp add: fl64_def)
next
  case False
  define k where "k = max (expo \<bar>x\<bar> - 52) (- 1074)"
  have "pow2 k = pow2 (k + 1074) * pow2 (- 1074)"
    using pow2_add [of "k + 1074" "- 1074"] by simp
  moreover have "0 \<le> k + 1074" by (simp add: k_def)
  then have "pow2 (k + 1074) = of_int (2 ^ nat (k + 1074))" by (simp add: pow2_def)
  ultimately have "fl64 x = of_int (round_even (x / pow2 k) * 2 ^ nat (k + 1074)) * pow2 (- 1074)"
    using False by (simp add: fl64_def Let_def k_def)
  then show ?thesis by blast
qed

lemma double_gap:
  assumes "double lb" and "double ub" and "lb < ub"
  shows "pow2 (- 1074) \<le> ub - lb"
proof -
  from assms(1,2) fl64_multiple [of lb] fl64_multiple [of ub]
  obtain zl zu :: int where z: "lb = of_int zl * pow2 (- 1074)" "ub = of_int zu * pow2 (- 1074)"
    by (auto simp: double_def)
  with assms(3) have "zl < zu" by simp
  then have "1 \<le> zu - zl" by simp
  then have "(1::real) \<le> of_int (zu - zl)" by (simp only: of_int_1_le_iff)
  then have "1 * pow2 (- 1074) \<le> of_int (zu - zl) * pow2 (- 1074)"
    by (intro mult_right_mono) simp_all
  with z show ?thesis by (simp add: algebra_simps)
qed

lemma fl64_error_dec: "\<bar>fl64 x - x\<bar> \<le> \<bar>x\<bar> * (12 / 100000000000000000) + 1 / 1000000000000000000000000000000"
proof -
  have "\<bar>x\<bar> / 2 ^ 53 \<le> \<bar>x\<bar> * (12 / 100000000000000000)"
    by (simp add: field_simps)
  moreover have "(1::real) / 2 ^ 1075 \<le> 1 / 1000000000000000000000000000000" by simp
  ultimately show ?thesis using fl64_error [of x] by linarith
qed

lemma fl64_pos:
  assumes "pow2 (- 1074) \<le> d"
  shows "0 < fl64 d"
proof -
  have p: "pow2 (- 1074) = 1 / 2 ^ 1074" by (simp add: pow2_def)
  from assms p have d: "1 / 2 ^ 1074 \<le> d" by simp
  then have "0 < d" by (rule less_le_trans [rotated]) simp
  then have "\<bar>fl64 d - d\<bar> \<le> d / 2 ^ 53 + 1 / 2 ^ 1075"
    using fl64_error [of d] by simp
  moreover have "d / 2 ^ 53 \<le> d / 4" using \<open>0 < d\<close> by (simp add: field_simps)
  moreover have "(1::real) / 2 ^ 1075 = (1 / 2 ^ 1074) / 2" by simp
  ultimately show ?thesis using d by simp
qed

text \<open>
  The round trip of one entry. Inside a box of doubles of magnitude at most \<open>10\<^sup>6\<close> the
  four roundings move the entry by at most \<open>2 \<cdot> 10\<^sup>-\<^sup>9\<close>; no intermediate value exceeds
  \<open>4 \<cdot> 10\<^sup>6\<close>, so none of the operations overflows.
\<close>

lemma roundtrip_elem:
  assumes "double lb" and "double ub" and "lb < ub"
    and "\<bar>lb\<bar> \<le> 10 ^ 6" and "\<bar>ub\<bar> \<le> 10 ^ 6" and "lb \<le> x" and "x \<le> ub"
  shows "\<bar>from_01_entry lb ub (to_01_entry lb ub x) - x\<bar> \<le> 2 / 10 ^ 9"
proof -
  define d where "d = ub - lb"
  define D where "D = x - lb"
  define w where "w = fl64 d"
  define a where "a = fl64 D"
  define b where "b = fl64 (a / w)"
  define c where "c = fl64 (b * w)"
  define r where "r = fl64 (c + lb)"
  from assms(4,5) have "\<bar>lb\<bar> \<le> 1000000" "\<bar>ub\<bar> \<le> 1000000" by simp_all
  with assms(3,6,7) have D: "0 \<le> D" "D \<le> 2000000" and d: "0 < d" "d \<le> 2000000"
    and x: "\<bar>D + lb\<bar> \<le> 1000000"
    unfolding d_def D_def by linarith+
  have w_pos: "0 < w"
    unfolding w_def d_def using double_gap [OF assms(1-3)] by (rule fl64_pos)
  have w_err: "\<bar>w - d\<bar> \<le> \<bar>d\<bar> * (12 / 100000000000000000) + 1 / 1000000000000000000000000000000"
    unfolding w_def by (rule fl64_error_dec)
  with d have w_le: "w \<le> 3000000" by linarith
  have a_err: "\<bar>a - D\<bar> \<le> \<bar>D\<bar> * (12 / 100000000000000000) + 1 / 1000000000000000000000000000000"
    unfolding a_def by (rule fl64_error_dec)
  with D have a_le: "\<bar>a\<bar> \<le> 3000000" and a_D: "\<bar>a - D\<bar> \<le> 3 / 10000000000"
    by linarith+
  have "\<bar>b - a / w\<bar> \<le> \<bar>a / w\<bar> * (12 / 100000000000000000) + 1 / 1000000000000000000000000000000"
    unfolding b_def by (rule fl64_error_dec)
  then have "\<bar>b - a / w\<bar> * w \<le> (\<bar>a / w\<bar> * (12 / 100000000000000000) + 1 / 1000000000000000000000000000000) * w"
    using w_pos by (intro mult_right_mono) simp_all
  moreover have "\<bar>b - a / w\<bar> * w = \<bar>b * w - a\<bar>"
  proof -
    have "\<bar>b - a / w\<bar> * w = \<bar>b - a / w\<bar> * \<bar>w\<bar>" using w_pos by simp
    also have "\<dots> = \<bar>(b - a / w) * w\<bar>" by (simp add: abs_mult)
    also have "(b - a / w) * w = b * w - a" using w_pos by (simp add: field_simps)
    finally show ?thesis .
  qed
  moreover have "(\<bar>a / w\<bar> * (12 / 100000000000000000) + 1 / 1000000000000000000000000000000) * w
      = \<bar>a\<bar> * (12 / 100000000000000000) + w / 1000000000000000000000000000000"
    using w_pos by (simp add: field_simps abs_of_pos)
  ultimately have b_err: "\<bar>b * w - a\<bar> \<le> \<bar>a\<bar> * (12 / 100000000000000000) + w / 1000000000000000000000000000000"
    by simp
  define bw where "bw = b * w"
  have c_err: "\<bar>c - bw\<bar> \<le> \<bar>bw\<bar> * (12 / 100000000000000000) + 1 / 1000000000000000000000000000000"
    unfolding c_def bw_def by (rule fl64_error_dec)
  define cl where "cl = c + lb"
  have r_err: "\<bar>r - cl\<bar> \<le> \<bar>cl\<bar> * (12 / 100000000000000000) + 1 / 1000000000000000000000000000000"
    unfolding r_def cl_def by (rule fl64_error_dec)
  from b_err a_le w_le w_pos have bw: "\<bar>bw - a\<bar> \<le> 4 / 10000000000"
    unfolding bw_def by linarith
  with a_le have bw_le: "\<bar>bw\<bar> \<le> 4000000" by linarith
  with c_err have c_bw: "\<bar>c - bw\<bar> \<le> 5 / 10000000000" by linarith
  from c_bw bw a_D have c_D: "\<bar>c - D\<bar> \<le> 12 / 10000000000" by linarith
  with x have "\<bar>cl\<bar> \<le> 2000000" unfolding cl_def by linarith
  with r_err have "\<bar>r - cl\<bar> \<le> 3 / 10000000000" by linarith
  with c_D have "\<bar>r - (D + lb)\<bar> \<le> 2 / 1000000000" unfolding cl_def by linarith
  then show ?thesis
    by (simp add: from_01_entry_def to_01_entry_def r_def c_def b_def a_def w_def d_def D_def)
qed

subsection \<open>The loops, entry by entry\<close>

text \<open>
  With a column for every bound the loop returns; the result has the shape of the input,
  column \<open>i + m\<close> transformed with the \<open>m\<close>-th bound and the other columns unchanged.
\<close>

lemma to_01_loop_nth:
  assumes "i + length bs \<le> ncols X"
  shows "\<exists>Y. to_01_loop i bs X = Inr Y \<and> ncols Y = ncols X \<and> length (rows Y) = length (rows X)
     \<and> (\<forall>k<length (rows X). length (rows Y ! k) = length (rows X ! k)
         \<and> (\<forall>j<length (rows X ! k). rows Y ! k ! j =
              (if i \<le> j \<and> j < i + length bs
               then to_01_entry (fst (bs ! (j - i))) (snd (bs ! (j - i))) (rows X ! k ! j)
               else rows X ! k ! j)))"
  using assms
proof (induction bs arbitrary: i X)
  case Nil
  then show ?case by simp
next
  case (Cons b bs)
  obtain lb ub where b: "b = (lb, ub)" by (cases b)
  define X' where "X' = map_col i (to_01_entry lb ub) X"
  have nc: "ncols X' = ncols X" and len: "length (rows X') = length (rows X)"
    by (simp_all add: X'_def map_col_def)
  have row: "rows X' ! k = (rows X ! k)[i := to_01_entry lb ub (rows X ! k ! i)]"
    if "k < length (rows X)" for k
    using that by (simp add: X'_def map_col_def)
  from Cons.prems have i: "i < ncols X" and "Suc i + length bs \<le> ncols X'"
    by (simp_all add: nc)
  from Cons.IH [OF this(2)] obtain Y where
    Y: "to_01_loop (Suc i) bs X' = Inr Y" "ncols Y = ncols X'"
       "length (rows Y) = length (rows X')"
    and Yk: "\<And>k j. k < length (rows X') \<Longrightarrow> length (rows Y ! k) = length (rows X' ! k)"
    and Ykj: "\<And>k j. k < length (rows X') \<Longrightarrow> j < length (rows X' ! k) \<Longrightarrow>
       rows Y ! k ! j =
         (if Suc i \<le> j \<and> j < Suc i + length bs
          then to_01_entry (fst (bs ! (j - Suc i))) (snd (bs ! (j - Suc i))) (rows X' ! k ! j)
          else rows X' ! k ! j)"
    by blast
  have "to_01_loop i (b # bs) X = Inr Y"
    using i Y(1) by (simp add: b X'_def)
  moreover have "ncols Y = ncols X" using Y(2) nc by simp
  moreover have "length (rows Y) = length (rows X)" using Y(3) len by simp
  moreover have "length (rows Y ! k) = length (rows X ! k)
         \<and> (\<forall>j<length (rows X ! k). rows Y ! k ! j =
              (if i \<le> j \<and> j < i + length (b # bs)
               then to_01_entry (fst ((b # bs) ! (j - i))) (snd ((b # bs) ! (j - i))) (rows X ! k ! j)
               else rows X ! k ! j))"
    if k: "k < length (rows X)" for k
  proof (intro conjI allI impI)
    from k show "length (rows Y ! k) = length (rows X ! k)"
      using Yk [of k] by (simp add: len row)
  next
    fix j assume j: "j < length (rows X ! k)"
    from k j have eq: "rows Y ! k ! j =
         (if Suc i \<le> j \<and> j < Suc i + length bs
          then to_01_entry (fst (bs ! (j - Suc i))) (snd (bs ! (j - Suc i))) (rows X' ! k ! j)
          else rows X' ! k ! j)"
      using Ykj [of k j] by (simp add: len row)
    from k j have x: "rows X' ! k ! j
        = (if j = i then to_01_entry lb ub (rows X ! k ! i) else rows X ! k ! j)"
      by (simp add: row nth_list_update)
    consider "j < i" | "j = i" | "i < j" by linarith
    then show "rows Y ! k ! j =
              (if i \<le> j \<and> j < i + length (b # bs)
               then to_01_entry (fst ((b # bs) ! (j - i))) (snd ((b # bs) ! (j - i))) (rows X ! k ! j)
               else rows X ! k ! j)"
    proof cases
      case 1
      then show ?thesis using eq x by simp
    next
      case 2
      then show ?thesis using eq x by (simp add: b)
    next
      case 3
      then have "(b # bs) ! (j - i) = bs ! (j - Suc i)" by (simp add: nth_Cons')
      with 3 show ?thesis using eq x by simp
    qed
  qed
  ultimately show ?case by blast
qed

lemma from_01_loop_nth:
  assumes "i + length bs \<le> ncols X"
  shows "\<exists>Y. from_01_loop i bs X = Inr Y \<and> ncols Y = ncols X \<and> length (rows Y) = length (rows X)
     \<and> (\<forall>k<length (rows X). length (rows Y ! k) = length (rows X ! k)
         \<and> (\<forall>j<length (rows X ! k). rows Y ! k ! j =
              (if i \<le> j \<and> j < i + length bs
               then from_01_entry (fst (bs ! (j - i))) (snd (bs ! (j - i))) (rows X ! k ! j)
               else rows X ! k ! j)))"
  using assms
proof (induction bs arbitrary: i X)
  case Nil
  then show ?case by simp
next
  case (Cons b bs)
  obtain lb ub where b: "b = (lb, ub)" by (cases b)
  define X' where "X' = map_col i (from_01_entry lb ub) X"
  have nc: "ncols X' = ncols X" and len: "length (rows X') = length (rows X)"
    by (simp_all add: X'_def map_col_def)
  have row: "rows X' ! k = (rows X ! k)[i := from_01_entry lb ub (rows X ! k ! i)]"
    if "k < length (rows X)" for k
    using that by (simp add: X'_def map_col_def)
  from Cons.prems have i: "i < ncols X" and "Suc i + length bs \<le> ncols X'"
    by (simp_all add: nc)
  from Cons.IH [OF this(2)] obtain Y where
    Y: "from_01_loop (Suc i) bs X' = Inr Y" "ncols Y = ncols X'"
       "length (rows Y) = length (rows X')"
    and Yk: "\<And>k j. k < length (rows X') \<Longrightarrow> length (rows Y ! k) = length (rows X' ! k)"
    and Ykj: "\<And>k j. k < length (rows X') \<Longrightarrow> j < length (rows X' ! k) \<Longrightarrow>
       rows Y ! k ! j =
         (if Suc i \<le> j \<and> j < Suc i + length bs
          then from_01_entry (fst (bs ! (j - Suc i))) (snd (bs ! (j - Suc i))) (rows X' ! k ! j)
          else rows X' ! k ! j)"
    by blast
  have "from_01_loop i (b # bs) X = Inr Y"
    using i Y(1) by (simp add: b X'_def)
  moreover have "ncols Y = ncols X" using Y(2) nc by simp
  moreover have "length (rows Y) = length (rows X)" using Y(3) len by simp
  moreover have "length (rows Y ! k) = length (rows X ! k)
         \<and> (\<forall>j<length (rows X ! k). rows Y ! k ! j =
              (if i \<le> j \<and> j < i + length (b # bs)
               then from_01_entry (fst ((b # bs) ! (j - i))) (snd ((b # bs) ! (j - i))) (rows X ! k ! j)
               else rows X ! k ! j))"
    if k: "k < length (rows X)" for k
  proof (intro conjI allI impI)
    from k show "length (rows Y ! k) = length (rows X ! k)"
      using Yk [of k] by (simp add: len row)
  next
    fix j assume j: "j < length (rows X ! k)"
    from k j have eq: "rows Y ! k ! j =
         (if Suc i \<le> j \<and> j < Suc i + length bs
          then from_01_entry (fst (bs ! (j - Suc i))) (snd (bs ! (j - Suc i))) (rows X' ! k ! j)
          else rows X' ! k ! j)"
      using Ykj [of k j] by (simp add: len row)
    from k j have x: "rows X' ! k ! j
        = (if j = i then from_01_entry lb ub (rows X ! k ! i) else rows X ! k ! j)"
      by (simp add: row nth_list_update)
    consider "j < i" | "j = i" | "i < j" by linarith
    then show "rows Y ! k ! j =
              (if i \<le> j \<and> j < i + length (b # bs)
               then from_01_entry (fst ((b # bs) ! (j - i))) (snd ((b # bs) ! (j - i))) (rows X ! k ! j)
               else rows X ! k ! j)"
    proof cases
      case 1
      then show ?thesis using eq x by simp
    next
      case 2
      then show ?thesis using eq x by (simp add: b)
    next
      case 3
      then have "(b # bs) ! (j - i) = bs ! (j - Suc i)" by (simp add: nth_Cons')
      with 3 show ?thesis using eq x by simp
    qed
  qed
  ultimately show ?case by blast
qed

lemma expand_same: "length xs = n \<Longrightarrow> expand n xs = xs"
  by (cases xs) (auto simp: expand_def)

lemma isclose_near:
  assumes "\<bar>a - b\<bar> \<le> 2 / 10 ^ 9"
  shows "isclose a b" and "isclose b a"
proof -
  from assms have "\<bar>a - b\<bar> \<le> 2 / 1000000000" by simp
  moreover have "0 \<le> \<bar>b\<bar> * (1 / 100000)" and "0 \<le> \<bar>a\<bar> * (1 / 100000)" by simp_all
  ultimately have "\<bar>a - b\<bar> \<le> 1 / 100000000 + \<bar>b\<bar> * (1 / 100000)"
    and "\<bar>b - a\<bar> \<le> 1 / 100000000 + \<bar>a\<bar> * (1 / 100000)"
    by linarith+
  then show "isclose a b" and "isclose b a"
    by (simp_all add: isclose_def atol_def rtol_def)
qed

lemma torch_allclose_near:
  assumes wf: "wf_tensor X" and nc: "ncols Z = ncols X"
    and len: "length (rows Z) = length (rows X)"
    and row: "\<And>k. k < length (rows X) \<Longrightarrow> length (rows Z ! k) = length (rows X ! k)"
    and near: "\<And>k j. k < length (rows X) \<Longrightarrow> j < length (rows X ! k) \<Longrightarrow>
                 \<bar>rows Z ! k ! j - rows X ! k ! j\<bar> \<le> 2 / 10 ^ 9"
  shows "torch_allclose Z X = Inr True" and "torch_allclose X Z = Inr True"
proof -
  have lx: "length (rows X ! k) = ncols X" if "k < length (rows X)" for k
    using wf that by (simp add: wf_tensor_def list_all_length)
  have ex: "expand (ncols X) (rows X ! k) = rows X ! k"
    and ez: "expand (ncols X) (rows Z ! k) = rows Z ! k" if "k < length (rows X)" for k
    using that lx [OF that] row [OF that] by (simp_all add: expand_same)
  have a: "list_all2 isclose (rows Z ! k) (rows X ! k)"
    and b: "list_all2 isclose (rows X ! k) (rows Z ! k)" if "k < length (rows X)" for k
    using that row [OF that] near [OF that] isclose_near
    by (simp_all add: list_all2_conv_all_nth)
  show "torch_allclose Z X = Inr True"
    using a by (simp add: torch_allclose_def broadcast_dim_def nrows_def nc len expand_same
        list_all2_conv_all_nth ex ez)
  show "torch_allclose X Z = Inr True"
    using b by (simp add: torch_allclose_def broadcast_dim_def nrows_def nc len expand_same
        list_all2_conv_all_nth ex ez)
qed

lemma double_ex: "double (- 2)" "double 2" "double 0" "double (1 / 8)"
  by code_simp+

lemma double_big: "double (- 100000000000000000)" "double 100000000000000000"
  by code_simp+

lemma entry_eval_box: "to_01_entry (- 2) 2 1 = 3 / 4" "to_01_entry (- 2) 2 2 = 1"
  "to_01_entry 0 (1 / 8) (1 / 16) = 1 / 2" "to_01_entry 0 (1 / 8) 0 = 0"
  "from_01_entry (- 2) 2 (3 / 4) = 1" "from_01_entry (- 2) 2 1 = 2"
  "from_01_entry 0 (1 / 8) (1 / 2) = 1 / 16" "from_01_entry 0 (1 / 8) 0 = 0"
  by code_simp+

lemma entry_eval_big: "to_01_entry (- 100000000000000000) 100000000000000000 1 = 1 / 2"
  "from_01_entry (- 100000000000000000) 100000000000000000 (1 / 2) = 0"
  by code_simp+

text \<open>
  C6 (amended). Round trip in double precision: for every box whose bounds are doubles
  with \<open>ub > lb\<close> and magnitude at most \<open>10\<^sup>6\<close> in every dimension, and every point matrix
  \<open>X\<close> (a 2-D tensor of dtype float64 with a column for every bound) whose rows lie
  inside the box, \<open>to_01\<close> followed by \<open>from_01\<close> over the same bounds returns a matrix
  that \<open>torch.allclose\<close>, with its default tolerances, accepts as equal to \<open>X\<close>, in either
  order of the arguments.
\<close>

theorem to_01_from_01_roundtrip:
  assumes box: "list_all (\<lambda>(lb, ub). double lb \<and> double ub \<and> lb < ub
                           \<and> \<bar>lb\<bar> \<le> 10 ^ 6 \<and> \<bar>ub\<bar> \<le> 10 ^ 6) (self_bounds_d self)"
    and wf: "wf_tensor X"
    and len: "length (self_bounds_d self) \<le> ncols X"
    and inside: "inside_box (self_bounds_d self) X"
  shows "\<exists>Y Z. to_01 self X = Inr Y \<and> from_01 self Y = Inr Z
           \<and> torch_allclose Z X = Inr True \<and> torch_allclose X Z = Inr True"
proof -
  define bs where "bs = self_bounds_d self"
  from len have "0 + length bs \<le> ncols X" by (simp add: bs_def)
  from to_01_loop_nth [OF this] obtain Y where
    Y: "to_01_loop 0 bs X = Inr Y" "ncols Y = ncols X" "length (rows Y) = length (rows X)"
    and Yk: "\<And>k. k < length (rows X) \<Longrightarrow> length (rows Y ! k) = length (rows X ! k)"
    and Ykj: "\<And>k j. k < length (rows X) \<Longrightarrow> j < length (rows X ! k) \<Longrightarrow>
       rows Y ! k ! j =
         (if j < length bs
          then to_01_entry (fst (bs ! j)) (snd (bs ! j)) (rows X ! k ! j)
          else rows X ! k ! j)"
    by auto
  from len Y(2) have "0 + length bs \<le> ncols Y" by (simp add: bs_def)
  from from_01_loop_nth [OF this] obtain Z where
    Z: "from_01_loop 0 bs Y = Inr Z" "ncols Z = ncols Y" "length (rows Z) = length (rows Y)"
    and Zk: "\<And>k. k < length (rows Y) \<Longrightarrow> length (rows Z ! k) = length (rows Y ! k)"
    and Zkj: "\<And>k j. k < length (rows Y) \<Longrightarrow> j < length (rows Y ! k) \<Longrightarrow>
       rows Z ! k ! j =
         (if j < length bs
          then from_01_entry (fst (bs ! j)) (snd (bs ! j)) (rows Y ! k ! j)
          else rows Y ! k ! j)"
    by auto
  have near: "\<bar>rows Z ! k ! j - rows X ! k ! j\<bar> \<le> 2 / 10 ^ 9"
    if k: "k < length (rows X)" and j: "j < length (rows X ! k)" for k j
  proof (cases "j < length bs")
    case False
    with k j show ?thesis by (simp add: Zkj Ykj Yk Y(3))
  next
    case True
    obtain lb ub where b: "bs ! j = (lb, ub)" by (cases "bs ! j")
    from box True b have d: "double lb" "double ub" "lb < ub" "\<bar>lb\<bar> \<le> 10 ^ 6" "\<bar>ub\<bar> \<le> 10 ^ 6"
      by (auto simp: bs_def list_all_length)
    from inside k have "list_all2 (\<lambda>(lb, ub) x. lb \<le> x \<and> x \<le> ub) bs (take (length bs) (rows X ! k))"
      by (simp add: inside_box_def bs_def list_all_length)
    with True b j have "lb \<le> rows X ! k ! j" "rows X ! k ! j \<le> ub"
      by (auto simp: list_all2_conv_all_nth)
    from roundtrip_elem [OF d this] True k j show ?thesis
      by (simp add: Zkj Ykj Yk Y(3) b)
  qed
  have nc: "ncols Z = ncols X" and ln: "length (rows Z) = length (rows X)"
    using Y Z by simp_all
  have rw: "length (rows Z ! k) = length (rows X ! k)" if "k < length (rows X)" for k
    using that Yk Zk Y(3) by simp
  have "torch_allclose Z X = Inr True" and "torch_allclose X Z = Inr True"
    using torch_allclose_near [OF wf nc ln rw near] by simp_all
  with Y(1) Z(1) show ?thesis by (simp add: to_01_def from_01_def bs_def)
qed

theorem to_01_from_01_roundtrip_witness:
  "list_all (\<lambda>(lb, ub). double lb \<and> double ub \<and> lb < ub \<and> \<bar>lb\<bar> \<le> 10 ^ 6 \<and> \<bar>ub\<bar> \<le> 10 ^ 6)
     (self_bounds_d (rembo_ex\<lparr>self_bounds_d := [(- 2, 2), (0, 1 / 8)]\<rparr>))
   \<and> wf_tensor (Tensor 2 [[1, 1 / 16], [2, 0]])
   \<and> length (self_bounds_d (rembo_ex\<lparr>self_bounds_d := [(- 2, 2), (0, 1 / 8)]\<rparr>))
        \<le> ncols (Tensor 2 [[1, 1 / 16], [2, 0]])
   \<and> inside_box (self_bounds_d (rembo_ex\<lparr>self_bounds_d := [(- 2, 2), (0, 1 / 8)]\<rparr>))
        (Tensor 2 [[1, 1 / 16], [2, 0]])
   \<and> to_01 (rembo_ex\<lparr>self_bounds_d := [(- 2, 2), (0, 1 / 8)]\<rparr>) (Tensor 2 [[1, 1 / 16], [2, 0]])
        = Inr (Tensor 2 [[3 / 4, 1 / 2], [1, 0]])
   \<and> from_01 (rembo_ex\<lparr>self_bounds_d := [(- 2, 2), (0, 1 / 8)]\<rparr>) (Tensor 2 [[3 / 4, 1 / 2], [1, 0]])
        = Inr (Tensor 2 [[1, 1 / 16], [2, 0]])
   \<and> torch_allclose (Tensor 2 [[1, 1 / 16], [2, 0]]) (Tensor 2 [[1, 1 / 16], [2, 0]]) = Inr True"
proof -
  let ?s = "rembo_ex\<lparr>self_bounds_d := [(- 2, 2), (0, 1 / 8)]\<rparr>"
  let ?X = "Tensor 2 [[1, 1 / 16], [2, 0]]"
  have h1: "list_all (\<lambda>(lb, ub). double lb \<and> double ub \<and> lb < ub \<and> \<bar>lb\<bar> \<le> 10 ^ 6 \<and> \<bar>ub\<bar> \<le> 10 ^ 6)
     (self_bounds_d ?s)"
    by (simp add: double_ex)
  have h2: "wf_tensor ?X" by (simp add: wf_tensor_def)
  have h3: "length (self_bounds_d ?s) \<le> ncols ?X" by simp
  have h4: "inside_box (self_bounds_d ?s) ?X" by (simp add: inside_box_def)
  have e: "to_01 ?s ?X = Inr (Tensor 2 [[3 / 4, 1 / 2], [1, 0]])"
    by (simp add: to_01_def map_col_def entry_eval_box)
  have f: "from_01 ?s (Tensor 2 [[3 / 4, 1 / 2], [1, 0]]) = Inr ?X"
    by (simp add: from_01_def map_col_def entry_eval_box)
  from to_01_from_01_roundtrip [OF h1 h2 h3 h4] e f h1 h2 h3 h4 show ?thesis by auto
qed

text \<open>
  Without the limit on the magnitude of the bounds the round trip leaves the tolerance:
  in the box \<open>[-10\<^sup>1\<^sup>7, 10\<^sup>1\<^sup>7]\<close> the point \<open>1\<close>, which is inside, goes to \<open>1/2\<close> (the difference
  \<open>1 + 10\<^sup>1\<^sup>7\<close> rounds to \<open>10\<^sup>1\<^sup>7\<close>) and comes back as \<open>0\<close>.
\<close>

theorem to_01_from_01_rounding_counterexample:
  "list_all (\<lambda>(lb, ub). double lb \<and> double ub \<and> lb < ub)
     (self_bounds_d (rembo_ex\<lparr>self_bounds_d := [(- 100000000000000000, 100000000000000000)]\<rparr>))
   \<and> inside_box (self_bounds_d (rembo_ex\<lparr>self_bounds_d := [(- 100000000000000000, 100000000000000000)]\<rparr>))
        (Tensor 1 [[1]])
   \<and> to_01 (rembo_ex\<lparr>self_bounds_d := [(- 100000000000000000, 100000000000000000)]\<rparr>) (Tensor 1 [[1]])
        = Inr (Tensor 1 [[1 / 2]])
   \<and> from_01 (rembo_ex\<lparr>self_bounds_d := [(- 100000000000000000, 100000000000000000)]\<rparr>)
        (Tensor 1 [[1 / 2]]) = Inr (Tensor 1 [[0]])
   \<and> torch_allclose (Tensor 1 [[0]]) (Tensor 1 [[1]]) = Inr False
   \<and> torch_allclose (Tensor 1 [[1]]) (Tensor 1 [[0]]) = Inr False"
  by (simp add: double_big inside_box_def to_01_def from_01_def map_col_def entry_eval_big
      torch_allclose_def broadcast_dim_def nrows_def expand_def isclose_def atol_def rtol_def)

section \<open>project_down\<close>

text \<open>
  Resolving the images of the stored points from position \<open>k\<close> on, with the indices from
  \<open>k\<close> on still unmatched: every row matches the first unmatched index, which is its own.
\<close>

lemma project_down_loop_own_images:
  assumes "list_all (\<lambda>z. length z = ncols (self_A self)) (self_X_d self)"
    and "k \<le> length (self_X_d self)"
  shows "project_down_loop self
           (map (\<lambda>x. torch_clamp_vec (map (\<lambda>a. dot a x) (rows (self_A self))) (- 1) 1)
              (drop k (self_X_d self)))
           [k..<length (self_X_d self)] X_d
         = Inr (X_d @ drop k (self_X_d self))"
  using assms(2)
proof (induction "length (self_X_d self) - k" arbitrary: k X_d)
  case 0
  then show ?case by simp
next
  case (Suc m)
  let ?zs = "self_X_d self"
  from Suc.hyps(2) have k: "k < length ?zs" by simp
  then have len: "length (?zs ! k) = ncols (self_A self)"
    using assms(1) by (simp add: list_all_length)
  have drop: "drop k ?zs = ?zs ! k # drop (Suc k) ?zs"
    using k by (simp add: Cons_nth_drop_Suc)
  have upt: "[k..<length ?zs] = k # [Suc k..<length ?zs]"
    using k by (simp add: upt_conv_Cons)
  have step: "m = length ?zs - Suc k" using Suc.hyps(2) by simp
  have "Suc k \<le> length ?zs" using k by simp
  note IH = Suc.hyps(1) [OF step this]
  show ?case
    by (simp add: drop upt project_up_vec_eq [OF len] allclose_vec_refl IH)
qed

text \<open>
  C2 (amended). Correspondence soundness: for every non-empty list \<open>zs\<close> of
  low-dimensional points (each of length \<open>d\<close>), if the store holds exactly \<open>zs\<close>, then
  every \<open>project_up(z)\<close> is defined, the batch of these images is \<open>project_up\<close> of the
  stacked points, and resolving the batch succeeds and returns the stored points, each
  used exactly once and in store order, also when several of them have the same image.
\<close>

theorem project_down_of_project_up:
  assumes "self_X_d self = zs" and "zs \<noteq> []"
    and "list_all (\<lambda>z. length z = ncols (self_A self)) zs"
  shows "\<exists>xs. map (project_up_vec self) zs = map Inr xs
           \<and> project_up self (Tensor (ncols (self_A self)) zs)
               = Inr (Tensor (nrows (self_A self)) xs)
           \<and> project_down self (Tensor (nrows (self_A self)) xs)
               = Inr (Tensor (ncols (self_A self)) zs)"
proof -
  let ?d = "ncols (self_A self)"
  let ?up = "\<lambda>x. torch_clamp_vec (map (\<lambda>a. dot a x) (rows (self_A self))) (- 1) 1"
  have each: "map (project_up_vec self) zs = map Inr (map ?up zs)"
    using assms(3) by (simp add: list_all_iff project_up_vec_eq)
  have wf: "wf_tensor (Tensor ?d zs)"
    using assms(3) by (simp add: wf_tensor_def)
  have up: "project_up self (Tensor ?d zs) = Inr (Tensor (nrows (self_A self)) (map ?up zs))"
    using project_up_rows [OF wf, of self] by simp
  have "project_down_loop self (map ?up (drop 0 (self_X_d self))) [0..<length (self_X_d self)] []
          = Inr ([] @ drop 0 (self_X_d self))"
    by (rule project_down_loop_own_images) (simp_all add: assms)
  then have loop: "project_down_loop self (map ?up zs) [0..<length (self_X_d self)] [] = Inr zs"
    by (simp add: assms(1))
  obtain z rest where zs: "zs = z # rest"
    using assms(2) by (cases zs) auto
  have "torch_stack zs = Inr (Tensor ?d zs)"
    using assms(3) by (simp add: torch_stack_def zs)
  with loop have "project_down self (Tensor (nrows (self_A self)) (map ?up zs)) = Inr (Tensor ?d zs)"
    by (simp add: project_down_def)
  with up each show ?thesis by blast
qed

theorem project_down_of_project_up_witness:
  "self_X_d (rembo_ex\<lparr>self_X_d := [[2], [3], [1 / 2], [2]]\<rparr>) = [[2], [3], [1 / 2], [2]]
   \<and> list_all (\<lambda>z. length z = ncols (self_A (rembo_ex\<lparr>self_X_d := [[2], [3], [1 / 2], [2]]\<rparr>)))
        [[2], [3], [1 / 2], [2]]
   \<and> project_up (rembo_ex\<lparr>self_X_d := [[2], [3], [1 / 2], [2]]\<rparr>)
        (Tensor 1 [[2], [3], [1 / 2], [2]])
        = Inr (Tensor 3 [[1, 0, 0], [1, 0, 0], [1 / 2, 0, 0], [1, 0, 0]])
   \<and> project_down (rembo_ex\<lparr>self_X_d := [[2], [3], [1 / 2], [2]]\<rparr>)
        (Tensor 3 [[1, 0, 0], [1, 0, 0], [1 / 2, 0, 0], [1, 0, 0]])
        = Inr (Tensor 1 [[2], [3], [1 / 2], [2]])"
proof -
  let ?zs = "[[2], [3], [1 / 2], [2 :: real]]"
  let ?s = "rembo_ex\<lparr>self_X_d := ?zs\<rparr>"
  have A: "self_A ?s = A_ex" by (simp add: rembo_ex_def init_def)
  have h1: "self_X_d ?s = ?zs" by simp
  have h2: "?zs \<noteq> []" by simp
  have h3: "list_all (\<lambda>z. length z = ncols (self_A ?s)) ?zs" by (simp add: A A_ex_def)
  have e: "project_up ?s (Tensor 1 ?zs)
             = Inr (Tensor 3 [[1, 0, 0], [1, 0, 0], [1 / 2, 0, 0], [1, 0, 0]])"
    by (simp add: project_up_def A A_ex_def matmul_def torch_t_def nrows_def dot_def
        torch_clamp_def torch_clamp_vec_def clamp_def upt_rec)
  have nc: "ncols (self_A ?s) = 1" and nr: "nrows (self_A ?s) = 3"
    by (simp_all add: A A_ex_def nrows_def)
  from project_down_of_project_up [OF h1 h2 h3] obtain xs where
    up: "project_up ?s (Tensor 1 ?zs) = Inr (Tensor 3 xs)" and
    down: "project_down ?s (Tensor 3 xs) = Inr (Tensor 1 ?zs)"
    unfolding nc nr by blast
  from up e have "xs = [[1, 0, 0], [1, 0, 0], [1 / 2, 0, 0], [1, 0, 0]]" by simp
  with down e h1 h3 show ?thesis by simp
qed

text \<open>
  Without the restriction to non-empty lists the statement fails: the batch of images of
  an empty store is the tensor of shape \<open>(0, 3)\<close>, and resolving it raises RuntimeError,
  since \<open>torch.stack\<close> is applied to an empty list.
\<close>

theorem project_down_empty_batch_fails:
  "self_X_d (rembo_ex\<lparr>self_X_d := []\<rparr>) = []
   \<and> project_up (rembo_ex\<lparr>self_X_d := []\<rparr>) (Tensor 1 []) = Inr (Tensor 3 [])
   \<and> project_down (rembo_ex\<lparr>self_X_d := []\<rparr>) (Tensor 3 []) = Inl RuntimeError"
  by (simp add: rembo_ex_def init_def A_ex_def project_up_def matmul_def torch_t_def nrows_def
      dot_def torch_clamp_def torch_clamp_vec_def project_down_def torch_stack_def upt_rec)

section \<open>_get_single_X and fit\<close>

lemma get_single_X_loop_fails:
  assumes "Xi \<in> set Xs" and "torch_allclose X Xi \<noteq> Inr True"
  shows "get_single_X_loop X Xs = Inl AssertionError \<or> get_single_X_loop X Xs = Inl RuntimeError"
  using assms
proof (induction Xs)
  case Nil
  then show ?case by simp
next
  case (Cons Y Ys)
  show ?case
  proof (cases "torch_allclose X Y")
    case (Inl e)
    then have "e = RuntimeError"
      by (auto simp: torch_allclose_def split: option.splits)
    with Inl show ?thesis by simp
  next
    case (Inr close)
    show ?thesis
    proof (cases close)
      case True
      with Inr Cons.prems have "Xi \<in> set Ys" by auto
      with Cons.IH Cons.prems(2) Inr True show ?thesis by simp
    next
      case False
      with Inr show ?thesis by simp
    qed
  qed
qed

lemma get_single_X_fails:
  assumes "0 < i" and "i < length Xs" and "torch_allclose (Xs ! 0) (Xs ! i) \<noteq> Inr True"
  shows "get_single_X Xs = Inl AssertionError \<or> get_single_X Xs = Inl RuntimeError"
proof -
  from assms obtain X rest where Xs: "Xs = X # rest" by (cases Xs) auto
  with assms have "Xs ! i \<in> set rest" and "torch_allclose X (Xs ! i) \<noteq> Inr True"
    by (auto simp: nth_Cons split: nat.splits)
  from get_single_X_loop_fails [OF this] show ?thesis
    by (auto simp: get_single_X_def Xs)
qed

text \<open>\<open>project_down\<close> and \<open>to_01\<close> read only \<open>A\<close>, the store and \<open>bounds_d\<close>.\<close>

lemma find_match_cong:
  "self_A s' = self_A s \<Longrightarrow> self_X_d s' = self_X_d s \<Longrightarrow>
   find_match s' x_D unmatched = find_match s x_D unmatched"
  by (induction unmatched) (simp_all add: project_up_vec_def split: sum.splits)

lemma project_down_loop_cong:
  "self_A s' = self_A s \<Longrightarrow> self_X_d s' = self_X_d s \<Longrightarrow>
   project_down_loop s' X_D unmatched X_d = project_down_loop s X_D unmatched X_d"
  by (induction X_D arbitrary: unmatched X_d)
    (simp_all add: find_match_cong [of s' s] split: sum.splits option.splits)

lemma project_down_cong:
  "self_A s' = self_A s \<Longrightarrow> self_X_d s' = self_X_d s \<Longrightarrow>
   project_down s' X_D = project_down s X_D"
  by (simp add: project_down_def project_down_loop_cong [of s' s])

lemma to_01_cong: "self_bounds_d s' = self_bounds_d s \<Longrightarrow> to_01 s' X = to_01 s X"
  by (simp add: to_01_def)

text \<open>\<open>fit\<close> once the preconditions on the digest have passed.\<close>

lemma fit_checked:
  assumes "ssd_task_features search_space_digest = []"
    and "ssd_fidelity_features search_space_digest = []"
    and "bounds_ok (ssd_bounds search_space_digest)"
  shows "fit super self Xs Ys Yvars search_space_digest metric_names candidate_metadata
      = (case get_single_X Xs of
           Inl e \<Rightarrow> (Inl e, self\<lparr>self_num_outputs := length Xs\<rparr>)
         | Inr X_D \<Rightarrow>
             (case project_down self X_D of
                Inl e \<Rightarrow> (Inl e, self\<lparr>self_num_outputs := length Xs\<rparr>)
              | Inr X_d \<Rightarrow>
                  (case to_01 self X_d of
                     Inl e \<Rightarrow> (Inl e, self\<lparr>self_num_outputs := length Xs\<rparr>)
                   | Inr X_d01 \<Rightarrow>
                       delegated (self\<lparr>self_num_outputs := length Xs\<rparr>)
                         (super_fit super (self_super self)
                            (replicate (length Xs) X_d01) Ys Yvars
                            \<lparr> ssd_feature_names =
                                map (\<lambda>i. ''x'' @ str i) [0..<ncols (self_A self)],
                              ssd_bounds = replicate (length (self_bounds_d self)) (0, 1),
                              ssd_task_features = [],
                              ssd_fidelity_features = [] \<rparr>
                            metric_names candidate_metadata))))"
proof -
  let ?self = "self\<lparr>self_num_outputs := length Xs\<rparr>"
  have pd: "project_down ?self X_D = project_down self X_D" for X_D
    by (rule project_down_cong) simp_all
  have t: "to_01 ?self X_d = to_01 self X_d" for X_d
    by (rule to_01_cong) simp
  show ?thesis
    unfolding fit_def Let_def pd t by (simp add: assms split: sum.splits)
qed

text \<open>
  C9. \<open>fit\<close> records \<open>num_outputs = len(Xs)\<close> before it checks the outcome matrices and
  before it resolves the correspondence: when the preconditions on the digest hold and
  \<open>_get_single_X\<close> or \<open>project_down\<close> raises \<open>e\<close>, \<open>fit\<close> raises \<open>e\<close> and leaves the
  object with \<open>num_outputs\<close> already set to the new value and nothing else changed.
\<close>

theorem fit_not_atomic:
  assumes "ssd_task_features search_space_digest = []"
    and "ssd_fidelity_features search_space_digest = []"
    and "bounds_ok (ssd_bounds search_space_digest)"
    and "get_single_X Xs = Inl e
         \<or> (\<exists>X_D. get_single_X Xs = Inr X_D \<and> project_down self X_D = Inl e)"
  shows "fit super self Xs Ys Yvars search_space_digest metric_names candidate_metadata
           = (Inl e, self\<lparr>self_num_outputs := length Xs\<rparr>)"
  using assms(4) by (auto simp: fit_checked [OF assms(1-3)])

lemmas rembo_ex_simps = rembo_ex_def init_def A_ex_def pinvA_ex_def digest_ex_def super_ex_def

lemmas tensor_eval =
  torch_allclose_def allclose_vec_def broadcast_dim_def expand_def isclose_def atol_def rtol_def
  nrows_def matmul_def matvec_def torch_t_def dot_def torch_clamp_def torch_clamp_vec_def
  clamp_def torch_stack_def map_col_def upt_rec

theorem fit_not_atomic_witness:
  "ssd_task_features digest_ex = [] \<and> ssd_fidelity_features digest_ex = []
   \<and> bounds_ok (ssd_bounds digest_ex)
   \<and> self_num_outputs rembo_ex = 0
   \<and> get_single_X [Tensor 3 [[0, 0, 0]], Tensor 3 [[1, 0, 0]]] = Inl AssertionError
   \<and> fit super_ex rembo_ex [Tensor 3 [[0, 0, 0]], Tensor 3 [[1, 0, 0]]] [] [] digest_ex [] None
       = (Inl AssertionError, rembo_ex\<lparr>self_num_outputs := 2\<rparr>)
   \<and> get_single_X [Tensor 3 [[9 / 10, 0, 0]]] = Inr (Tensor 3 [[9 / 10, 0, 0]])
   \<and> project_down rembo_ex (Tensor 3 [[9 / 10, 0, 0]]) = Inl ValueError
   \<and> fit super_ex rembo_ex [Tensor 3 [[9 / 10, 0, 0]]] [] [] digest_ex [] None
       = (Inl ValueError, rembo_ex\<lparr>self_num_outputs := 1\<rparr>)"
proof -
  have pre: "ssd_task_features digest_ex = []" "ssd_fidelity_features digest_ex = []"
    "bounds_ok (ssd_bounds digest_ex)"
    by (simp_all add: digest_ex_def bounds_ok_def)
  have n0: "self_num_outputs rembo_ex = 0"
    by (simp add: rembo_ex_def init_def)
  have g1: "get_single_X [Tensor 3 [[0, 0, 0]], Tensor 3 [[1, 0, 0]]] = Inl AssertionError"
    by (simp add: get_single_X_def tensor_eval)
  have g2: "get_single_X [Tensor 3 [[9 / 10, 0, 0]]] = Inr (Tensor 3 [[9 / 10, 0, 0]])"
    by (simp add: get_single_X_def)
  have p2: "project_down rembo_ex (Tensor 3 [[9 / 10, 0, 0]]) = Inl ValueError"
    by (simp add: project_down_def project_up_vec_def rembo_ex_simps tensor_eval)
  have f1: "fit super_ex rembo_ex [Tensor 3 [[0, 0, 0]], Tensor 3 [[1, 0, 0]]] [] [] digest_ex [] None
       = (Inl AssertionError, rembo_ex\<lparr>self_num_outputs := 2\<rparr>)"
    using fit_not_atomic [OF pre, of "[Tensor 3 [[0, 0, 0]], Tensor 3 [[1, 0, 0]]]"
        AssertionError rembo_ex super_ex "[]" "[]" "[]" None] g1
    by simp
  have f2: "fit super_ex rembo_ex [Tensor 3 [[9 / 10, 0, 0]]] [] [] digest_ex [] None
       = (Inl ValueError, rembo_ex\<lparr>self_num_outputs := 1\<rparr>)"
    using fit_not_atomic [OF pre, of "[Tensor 3 [[9 / 10, 0, 0]]]"
        ValueError rembo_ex super_ex "[]" "[]" "[]" None] g2 p2
    by simp
  from pre n0 g1 g2 p2 f1 f2 show ?thesis by simp
qed

text \<open>
  C3 (amended). Fit consistency check: if some outcome design matrix \<open>Xs[i]\<close>, \<open>i \<ge> 1\<close>,
  is not within tolerance of the first one (\<open>torch.allclose(Xs[0], Xs[i])\<close> is false, or
  raises because the shapes do not match), \<open>fit\<close> raises AssertionError or RuntimeError; the object is left as it was, except that
  \<open>num_outputs\<close> may already be set; the result does not depend on the superclass, so
  neither the normalization nor the superclass's \<open>fit\<close> was reached.
\<close>

theorem fit_inconsistent_Xs_fails:
  assumes "0 < i" and "i < length Xs" and "torch_allclose (Xs ! 0) (Xs ! i) \<noteq> Inr True"
  shows "\<exists>e self'.
           fit super self Xs Ys Yvars search_space_digest metric_names candidate_metadata
             = (Inl e, self')
           \<and> (e = AssertionError \<or> e = RuntimeError)
           \<and> (self' = self \<or> self' = self\<lparr>self_num_outputs := length Xs\<rparr>)"
proof -
  from get_single_X_fails [OF assms] obtain e where
    e: "get_single_X Xs = Inl e" "e = AssertionError \<or> e = RuntimeError"
    by blast
  show ?thesis
  proof (cases "ssd_task_features search_space_digest = []
      \<and> ssd_fidelity_features search_space_digest = []
      \<and> bounds_ok (ssd_bounds search_space_digest)")
    case True
    then have pre: "ssd_task_features search_space_digest = []"
      "ssd_fidelity_features search_space_digest = []"
      "bounds_ok (ssd_bounds search_space_digest)"
      by simp_all
    have "fit super self Xs Ys Yvars search_space_digest metric_names candidate_metadata
        = (Inl e, self\<lparr>self_num_outputs := length Xs\<rparr>)"
      by (simp add: fit_checked [OF pre] e(1))
    with e(2) show ?thesis by blast
  next
    case False
    then have "fit super self Xs Ys Yvars search_space_digest metric_names candidate_metadata
        = (Inl AssertionError, self)"
      by (auto simp: fit_def)
    then show ?thesis by blast
  qed
qed

theorem fit_inconsistent_Xs_fails_witness:
  "(0 :: nat) < 1 \<and> 1 < length [Tensor 3 [[0, 0, 0]], Tensor 3 [[1, 0, 0]]]
   \<and> torch_allclose ([Tensor 3 [[0, 0, 0]], Tensor 3 [[1, 0, 0]]] ! 0)
        ([Tensor 3 [[0, 0, 0]], Tensor 3 [[1, 0, 0]]] ! 1) = Inr False
   \<and> (\<exists>e self'.
         fit super_ex rembo_ex [Tensor 3 [[0, 0, 0]], Tensor 3 [[1, 0, 0]]] [] [] digest_ex [] None
           = (Inl e, self')
         \<and> (e = AssertionError \<or> e = RuntimeError)
         \<and> (self' = rembo_ex \<or> self' = rembo_ex\<lparr>self_num_outputs :=
               length [Tensor 3 [[0, 0, 0]], Tensor 3 [[1, 0, 0]]]\<rparr>))"
proof -
  let ?Xs = "[Tensor 3 [[0, 0, 0]], Tensor 3 [[1, 0, 0]]]"
  have h1: "(0 :: nat) < 1" by simp
  have h2: "1 < length ?Xs" by simp
  have h3: "torch_allclose (?Xs ! 0) (?Xs ! 1) = Inr False"
    by (simp add: tensor_eval)
  from h3 have "torch_allclose (?Xs ! 0) (?Xs ! 1) \<noteq> Inr True" by simp
  from fit_inconsistent_Xs_fails [OF h1 h2 this] h1 h2 h3 show ?thesis by blast
qed

text \<open>
  The check is not pairwise: the second and third matrix below differ beyond tolerance in
  both directions, but each is within tolerance of the first, which is all that
  \<open>_get_single_X\<close> compares. \<open>fit\<close> succeeds and hands the normalized design matrix to
  the superclass three times.
\<close>

theorem fit_pairwise_counterexample:
  "torch_allclose (Tensor 3 [[1 / 100000000, 0, 0]]) (Tensor 3 [[- (1 / 100000000), 0, 0]]) = Inr False
   \<and> torch_allclose (Tensor 3 [[- (1 / 100000000), 0, 0]]) (Tensor 3 [[1 / 100000000, 0, 0]]) = Inr False
   \<and> fit super_ex rembo_ex
        [Tensor 3 [[0, 0, 0]], Tensor 3 [[1 / 100000000, 0, 0]], Tensor 3 [[- (1 / 100000000), 0, 0]]]
        [] [] digest_ex [] None
       = (Inr (),
          rembo_ex\<lparr>self_num_outputs := 3,
            self_super := [[Tensor 1 [[1 / 2]], Tensor 1 [[1 / 2]], Tensor 1 [[1 / 2]]]]\<rparr>)"
proof -
  let ?Xs = "[Tensor 3 [[0, 0, 0]], Tensor 3 [[1 / 100000000, 0, 0]], Tensor 3 [[- (1 / 100000000), 0, 0]]]"
  have a: "torch_allclose (Tensor 3 [[1 / 100000000, 0, 0]]) (Tensor 3 [[- (1 / 100000000), 0, 0]])
      = Inr False"
    by (simp add: tensor_eval)
  have b: "torch_allclose (Tensor 3 [[- (1 / 100000000), 0, 0]]) (Tensor 3 [[1 / 100000000, 0, 0]])
      = Inr False"
    by (simp add: tensor_eval)
  have g: "get_single_X ?Xs = Inr (Tensor 3 [[0, 0, 0]])"
    by (simp add: get_single_X_def tensor_eval)
  have pre: "ssd_task_features digest_ex = []" "ssd_fidelity_features digest_ex = []"
    "bounds_ok (ssd_bounds digest_ex)"
    by (simp_all add: digest_ex_def bounds_ok_def)
  have p: "project_down rembo_ex (Tensor 3 [[0, 0, 0]]) = Inr (Tensor 1 [[0]])"
    by (simp add: project_down_def project_up_vec_def rembo_ex_simps tensor_eval)
  have t: "to_01 rembo_ex (Tensor 1 [[0]]) = Inr (Tensor 1 [[1 / 2]])"
    by (simp add: to_01_def rembo_ex_simps map_col_def entry_eval)
  have "fit super_ex rembo_ex ?Xs [] [] digest_ex [] None
       = (Inr (),
          rembo_ex\<lparr>self_num_outputs := 3,
            self_super := [[Tensor 1 [[1 / 2]], Tensor 1 [[1 / 2]], Tensor 1 [[1 / 2]]]]\<rparr>)"
    by (simp only: fit_checked [OF pre] g p t sum.case)
      (simp add: delegated_def rembo_ex_simps numeral_3_eq_3)
  with a b show ?thesis by simp
qed

section \<open>predict\<close>

lemma matmul_shape:
  "matmul X Y = Inr Z \<Longrightarrow> nrows Z = nrows X \<and> ncols Z = ncols Y"
  by (auto simp: matmul_def nrows_def split: if_splits)

lemma torch_allclose_same_shape:
  "nrows X = nrows Y \<Longrightarrow> ncols X = ncols Y \<Longrightarrow> \<exists>close. torch_allclose X Y = Inr close"
  by (simp add: torch_allclose_def broadcast_dim_def)

text \<open>\<open>to_01\<close> returns when the tensor has a column for every bound.\<close>

lemma to_01_loop_defined:
  "i + length bs \<le> ncols Y0 \<Longrightarrow> \<exists>Y. to_01_loop i bs Y0 = Inr Y"
proof (induction bs arbitrary: i Y0)
  case Nil
  then show ?case by simp
next
  case (Cons b bs)
  obtain lb ub where b: "b = (lb, ub)" by (cases b)
  from Cons.prems have "Suc i + length bs \<le> ncols (map_col i (to_01_entry lb ub) Y0)"
    by simp
  from Cons.IH [OF this] Cons.prems show ?case by (simp add: b)
qed

text \<open>
  C10. \<open>predict\<close> chooses between the two readings of its input by the column count
  alone. An input with \<open>d\<close> columns is taken as low-dimensional whatever its entries
  are: it is normalized and handed to the superclass, the result does not depend on the
  cached pseudo-inverse nor on the entries of \<open>A\<close>, and with a column for every bound
  nothing is raised at this layer, inside \<open>bounds_d\<close> or not. An input with any other
  column count is multiplied with the pseudo-inverse and checked against the embedding
  before it is normalized and handed on. When \<open>D = d\<close>, every input with \<open>D\<close> columns
  takes the first path.
\<close>

theorem predict_decides_by_width:
  "(ncols X = ncols (self_A self) \<longrightarrow>
      predict super self X =
        (case to_01 self X of
           Inl e \<Rightarrow> (Inl e, self)
         | Inr X_d01 \<Rightarrow> delegated self (super_predict super (self_super self) X_d01))
      \<and> predict super (self\<lparr>self_pinvA := P\<rparr>) X
          = (fst (predict super self X), (snd (predict super self X))\<lparr>self_pinvA := P\<rparr>)
      \<and> (ncols A' = ncols (self_A self) \<longrightarrow>
           predict super (self\<lparr>self_A := A'\<rparr>) X
             = (fst (predict super self X), (snd (predict super self X))\<lparr>self_A := A'\<rparr>))
      \<and> (length (self_bounds_d self) \<le> ncols X \<longrightarrow>
           (\<exists>X_d01. to_01 self X = Inr X_d01
              \<and> predict super self X
                  = delegated self (super_predict super (self_super self) X_d01))))
   \<and> (ncols X \<noteq> ncols (self_A self) \<longrightarrow>
      predict super self X =
        (case matmul X (torch_t (self_pinvA self)) of
           Inl e \<Rightarrow> (Inl e, self)
         | Inr X_d \<Rightarrow>
             (case matmul X_d (torch_t (self_A self)) of
                Inl e \<Rightarrow> (Inl e, self)
              | Inr X_up \<Rightarrow>
                  (case torch_allclose X X_up of
                     Inl e \<Rightarrow> (Inl e, self)
                   | Inr close \<Rightarrow>
                       if \<not> close then (Inl NotImplementedError, self)
                       else (case to_01 self X_d of
                               Inl e \<Rightarrow> (Inl e, self)
                             | Inr X_d01 \<Rightarrow>
                                 delegated self
                                   (super_predict super (self_super self) X_d01))))))
   \<and> (nrows (self_A self) = ncols (self_A self) \<and> ncols X = nrows (self_A self) \<longrightarrow>
      predict super self X =
        (case to_01 self X of
           Inl e \<Rightarrow> (Inl e, self)
         | Inr X_d01 \<Rightarrow> delegated self (super_predict super (self_super self) X_d01))
      \<and> predict super (self\<lparr>self_pinvA := P\<rparr>) X
          = (fst (predict super self X), (snd (predict super self X))\<lparr>self_pinvA := P\<rparr>))"
proof -
  have low: "predict super s X =
        (case to_01 s X of
           Inl e \<Rightarrow> (Inl e, s)
         | Inr X_d01 \<Rightarrow> delegated s (super_predict super (self_super s) X_d01))"
    if "ncols X = ncols (self_A s)" for s :: "'a rembo"
    using that by (simp add: predict_def predict_X_d_def)
  have tP: "to_01 (self\<lparr>self_pinvA := P\<rparr>) X = to_01 self X"
    and tA: "to_01 (self\<lparr>self_A := A'\<rparr>) X = to_01 self X"
    by (rule to_01_cong, simp)+
  have pinv: "predict super (self\<lparr>self_pinvA := P\<rparr>) X
      = (fst (predict super self X), (snd (predict super self X))\<lparr>self_pinvA := P\<rparr>)"
    if "ncols X = ncols (self_A self)"
    using that by (simp add: low tP delegated_def split: sum.splits)
  have emb: "predict super (self\<lparr>self_A := A'\<rparr>) X
      = (fst (predict super self X), (snd (predict super self X))\<lparr>self_A := A'\<rparr>)"
    if "ncols X = ncols (self_A self)" and "ncols A' = ncols (self_A self)"
    using that by (simp add: low tA delegated_def split: sum.splits)
  have free: "\<exists>X_d01. to_01 self X = Inr X_d01
       \<and> predict super self X = delegated self (super_predict super (self_super self) X_d01)"
    if "ncols X = ncols (self_A self)" and "length (self_bounds_d self) \<le> ncols X"
  proof -
    from that(2) have "0 + length (self_bounds_d self) \<le> ncols X" by simp
    from to_01_loop_defined [OF this] obtain Y where "to_01 self X = Inr Y"
      by (auto simp: to_01_def)
    with low [OF that(1)] show ?thesis by simp
  qed
  have high: "predict super self X =
        (case matmul X (torch_t (self_pinvA self)) of
           Inl e \<Rightarrow> (Inl e, self)
         | Inr X_d \<Rightarrow>
             (case matmul X_d (torch_t (self_A self)) of
                Inl e \<Rightarrow> (Inl e, self)
              | Inr X_up \<Rightarrow>
                  (case torch_allclose X X_up of
                     Inl e \<Rightarrow> (Inl e, self)
                   | Inr close \<Rightarrow>
                       if \<not> close then (Inl NotImplementedError, self)
                       else (case to_01 self X_d of
                               Inl e \<Rightarrow> (Inl e, self)
                             | Inr X_d01 \<Rightarrow>
                                 delegated self
                                   (super_predict super (self_super self) X_d01)))))"
    if "ncols X \<noteq> ncols (self_A self)"
    using that by (simp add: predict_def predict_X_d_def split: sum.splits)
  from low [of self] pinv emb free high show ?thesis
    by (intro conjI impI) simp_all
qed

theorem predict_decides_by_width_witness:
  "ncols (Tensor 1 [[5], [- 7]]) = ncols (self_A rembo_ex)
   \<and> ncols (Tensor 1 [[7]]) = ncols (self_A rembo_ex)
   \<and> length (self_bounds_d rembo_ex) \<le> ncols (Tensor 1 [[5], [- 7]])
   \<and> to_01 rembo_ex (Tensor 1 [[5], [- 7]]) = Inr (Tensor 1 [[3], [- 3]])
   \<and> predict super_ex rembo_ex (Tensor 1 [[5], [- 7]])
       = (Inr (Tensor 1 [[3], [- 3]], []), rembo_ex\<lparr>self_super := [[Tensor 1 [[3], [- 3]]]]\<rparr>)
   \<and> predict super_ex (rembo_ex\<lparr>self_pinvA := Tensor 0 []\<rparr>) (Tensor 1 [[5], [- 7]])
       = (Inr (Tensor 1 [[3], [- 3]], []),
          rembo_ex\<lparr>self_super := [[Tensor 1 [[3], [- 3]]]], self_pinvA := Tensor 0 []\<rparr>)
   \<and> predict super_ex (rembo_ex\<lparr>self_A := Tensor 1 [[7]]\<rparr>) (Tensor 1 [[5], [- 7]])
       = (Inr (Tensor 1 [[3], [- 3]], []),
          rembo_ex\<lparr>self_super := [[Tensor 1 [[3], [- 3]]]], self_A := Tensor 1 [[7]]\<rparr>)
   \<and> ncols (Tensor 3 [[1 / 2, 1 / 4, 0]]) \<noteq> ncols (self_A rembo_ex)
   \<and> predict super_ex rembo_ex (Tensor 3 [[1 / 2, 1 / 4, 0]])
       = (Inl NotImplementedError, rembo_ex)
   \<and> ncols (Tensor 3 [[1 / 2, 0, 0]]) \<noteq> ncols (self_A rembo_ex)
   \<and> predict super_ex rembo_ex (Tensor 3 [[1 / 2, 0, 0]])
       = (Inr (Tensor 1 [[3 / 4]], []), rembo_ex\<lparr>self_super := [[Tensor 1 [[3 / 4]]]]\<rparr>)
   \<and> ncols (Tensor 2 [[1 / 2, 0]]) \<noteq> ncols (self_A rembo_ex)
   \<and> predict super_ex rembo_ex (Tensor 2 [[1 / 2, 0]]) = (Inl RuntimeError, rembo_ex)
   \<and> nrows (self_A (rembo_ex\<lparr>self_A := Tensor 2 [[1, 0], [0, 1]]\<rparr>))
       = ncols (self_A (rembo_ex\<lparr>self_A := Tensor 2 [[1, 0], [0, 1]]\<rparr>))
   \<and> ncols (Tensor 2 [[5, 6]]) = nrows (self_A (rembo_ex\<lparr>self_A := Tensor 2 [[1, 0], [0, 1]]\<rparr>))
   \<and> predict super_ex (rembo_ex\<lparr>self_A := Tensor 2 [[1, 0], [0, 1]]\<rparr>) (Tensor 2 [[5, 6]])
       = (Inr (Tensor 2 [[3, 6]], []),
          rembo_ex\<lparr>self_A := Tensor 2 [[1, 0], [0, 1]], self_super := [[Tensor 2 [[3, 6]]]]\<rparr>)"
proof -
  let ?X = "Tensor 1 [[5], [- 7]]"
  let ?X' = "Tensor 3 [[1 / 2, 1 / 4, 0]]"
  let ?X'' = "Tensor 3 [[1 / 2, 0, 0]]"
  let ?X2 = "Tensor 2 [[1 / 2, 0]]"
  let ?P = "Tensor 0 []"
  let ?A = "Tensor 1 [[7]]"
  let ?s2 = "rembo_ex\<lparr>self_A := Tensor 2 [[1, 0], [0, 1]]\<rparr>"
  note W = predict_decides_by_width [where super = super_ex and P = ?P and A' = ?A]
  have h: "ncols ?X = ncols (self_A rembo_ex)" "ncols ?A = ncols (self_A rembo_ex)"
    "length (self_bounds_d rembo_ex) \<le> ncols ?X"
    by (simp_all add: rembo_ex_simps)
  have h': "ncols ?X' \<noteq> ncols (self_A rembo_ex)" "ncols ?X'' \<noteq> ncols (self_A rembo_ex)"
    "ncols ?X2 \<noteq> ncols (self_A rembo_ex)"
    by (simp_all add: rembo_ex_simps)
  have h2: "nrows (self_A ?s2) = ncols (self_A ?s2)" "ncols (Tensor 2 [[5, 6]]) = nrows (self_A ?s2)"
    by (simp_all add: nrows_def)
  have t: "to_01 rembo_ex ?X = Inr (Tensor 1 [[3], [- 3]])"
    by (simp add: to_01_def rembo_ex_simps map_col_def entry_eval)
  have d: "delegated rembo_ex (super_predict super_ex (self_super rembo_ex) (Tensor 1 [[3], [- 3]]))
      = (Inr (Tensor 1 [[3], [- 3]], []), rembo_ex\<lparr>self_super := [[Tensor 1 [[3], [- 3]]]]\<rparr>)"
    by (simp add: delegated_def rembo_ex_simps)
  from W [where X = ?X and self = rembo_ex] h
  have "predict super_ex rembo_ex ?X =
      (case to_01 rembo_ex ?X of
         Inl e \<Rightarrow> (Inl e, rembo_ex)
       | Inr X_d01 \<Rightarrow>
           delegated rembo_ex (super_predict super_ex (self_super rembo_ex) X_d01))"
    and 3: "predict super_ex (rembo_ex\<lparr>self_pinvA := ?P\<rparr>) ?X
      = (fst (predict super_ex rembo_ex ?X), (snd (predict super_ex rembo_ex ?X))\<lparr>self_pinvA := ?P\<rparr>)"
    and 4: "predict super_ex (rembo_ex\<lparr>self_A := ?A\<rparr>) ?X
      = (fst (predict super_ex rembo_ex ?X), (snd (predict super_ex rembo_ex ?X))\<lparr>self_A := ?A\<rparr>)"
    by blast+
  then have 2: "predict super_ex rembo_ex ?X
       = (Inr (Tensor 1 [[3], [- 3]], []), rembo_ex\<lparr>self_super := [[Tensor 1 [[3], [- 3]]]]\<rparr>)"
    by (simp only: t sum.case d)
  from 3 have q: "predict super_ex (rembo_ex\<lparr>self_pinvA := ?P\<rparr>) ?X
       = (Inr (Tensor 1 [[3], [- 3]], []),
          rembo_ex\<lparr>self_super := [[Tensor 1 [[3], [- 3]]]], self_pinvA := ?P\<rparr>)"
    by (simp only: 2 fst_conv snd_conv)
  from 4 have q': "predict super_ex (rembo_ex\<lparr>self_A := ?A\<rparr>) ?X
       = (Inr (Tensor 1 [[3], [- 3]], []),
          rembo_ex\<lparr>self_super := [[Tensor 1 [[3], [- 3]]]], self_A := ?A\<rparr>)"
    by (simp only: 2 fst_conv snd_conv)
  have hi: "predict super_ex rembo_ex Z =
        (case matmul Z (torch_t (self_pinvA rembo_ex)) of
           Inl e \<Rightarrow> (Inl e, rembo_ex)
         | Inr X_d \<Rightarrow>
             (case matmul X_d (torch_t (self_A rembo_ex)) of
                Inl e \<Rightarrow> (Inl e, rembo_ex)
              | Inr X_up \<Rightarrow>
                  (case torch_allclose Z X_up of
                     Inl e \<Rightarrow> (Inl e, rembo_ex)
                   | Inr close \<Rightarrow>
                       if \<not> close then (Inl NotImplementedError, rembo_ex)
                       else (case to_01 rembo_ex X_d of
                               Inl e \<Rightarrow> (Inl e, rembo_ex)
                             | Inr X_d01 \<Rightarrow>
                                 delegated rembo_ex
                                   (super_predict super_ex (self_super rembo_ex) X_d01)))))"
    if "ncols Z \<noteq> ncols (self_A rembo_ex)" for Z
    using W [where X = Z and self = rembo_ex] that by blast
  have 5: "predict super_ex rembo_ex ?X' = (Inl NotImplementedError, rembo_ex)"
    by (simp add: hi [OF h'(1)]) (simp add: rembo_ex_simps tensor_eval)
  have 6: "predict super_ex rembo_ex ?X''
       = (Inr (Tensor 1 [[3 / 4]], []), rembo_ex\<lparr>self_super := [[Tensor 1 [[3 / 4]]]]\<rparr>)"
    by (simp add: hi [OF h'(2)])
      (simp add: rembo_ex_simps tensor_eval to_01_def entry_eval delegated_def)
  have 7: "predict super_ex rembo_ex ?X2 = (Inl RuntimeError, rembo_ex)"
    by (simp add: hi [OF h'(3)]) (simp add: rembo_ex_simps tensor_eval)
  from W [where X = "Tensor 2 [[5, 6]]" and self = ?s2] h2
  have "predict super_ex ?s2 (Tensor 2 [[5, 6]]) =
      (case to_01 ?s2 (Tensor 2 [[5, 6]]) of
         Inl e \<Rightarrow> (Inl e, ?s2)
       | Inr X_d01 \<Rightarrow> delegated ?s2 (super_predict super_ex (self_super ?s2) X_d01))"
    by blast
  then have 8: "predict super_ex ?s2 (Tensor 2 [[5, 6]])
       = (Inr (Tensor 2 [[3, 6]], []),
          rembo_ex\<lparr>self_A := Tensor 2 [[1, 0], [0, 1]], self_super := [[Tensor 2 [[3, 6]]]]\<rparr>)"
    by (simp add: to_01_def rembo_ex_simps map_col_def entry_eval delegated_def)
  from h t 2 q q' h' 5 6 7 h2 8 show ?thesis by blast
qed

text \<open>
  C1 (amended). Embedding check: for every input \<open>X\<close> with \<open>D\<close> columns, \<open>D \<noteq> d\<close>,
  on a model whose pseudo-inverse has shape \<open>(d, D)\<close> and whose \<open>bounds_d\<close> has at most
  \<open>d\<close> entries: the low-dimensional coordinates \<open>X_d = X @ pinvA\<^sup>T\<close> and the linear
  re-projection \<open>X_up = X_d @ A\<^sup>T\<close> (the projection without the clamp) are defined;
  \<open>predict\<close> raises NotImplementedError exactly when \<open>X\<close> is not within tolerance of
  \<open>X_up\<close>, and otherwise hands the normalized \<open>X_d\<close> to the superclass and returns
  whatever the superclass returns.
\<close>

theorem predict_embedding_check:
  assumes "ncols X \<noteq> ncols (self_A self)"
    and "ncols X = nrows (self_A self)"
    and "ncols (self_pinvA self) = nrows (self_A self)"
    and "nrows (self_pinvA self) = ncols (self_A self)"
    and "length (self_bounds_d self) \<le> ncols (self_A self)"
  shows "\<exists>X_d X_up close.
           matmul X (torch_t (self_pinvA self)) = Inr X_d
           \<and> matmul X_d (torch_t (self_A self)) = Inr X_up
           \<and> torch_allclose X X_up = Inr close
           \<and> (if close
              then \<exists>X_d01. to_01 self X_d = Inr X_d01
                     \<and> predict super self X
                         = delegated self (super_predict super (self_super self) X_d01)
              else predict super self X = (Inl NotImplementedError, self))"
proof -
  obtain X_d where X_d: "matmul X (torch_t (self_pinvA self)) = Inr X_d"
    using assms(2,3) by (simp add: matmul_def)
  from matmul_shape [OF X_d] have shape_d: "nrows X_d = nrows X" "ncols X_d = ncols (self_A self)"
    using assms(4) by simp_all
  obtain X_up where X_up: "matmul X_d (torch_t (self_A self)) = Inr X_up"
    using shape_d by (simp add: matmul_def)
  from matmul_shape [OF X_up] have "nrows X = nrows X_up" "ncols X = ncols X_up"
    using shape_d assms(2) by simp_all
  from torch_allclose_same_shape [OF this] obtain close where
    close: "torch_allclose X X_up = Inr close" by blast
  have pX: "predict_X_d self X = (if close then Inr X_d else Inl NotImplementedError)"
    using assms(1) by (simp add: predict_X_d_def X_d X_up close)
  show ?thesis
  proof (cases close)
    case True
    from to_01_loop_defined [of 0 "self_bounds_d self" X_d] obtain X_d01 where
      t: "to_01 self X_d = Inr X_d01"
      using assms(5) shape_d by (auto simp: to_01_def)
    with True pX have "predict super self X
        = delegated self (super_predict super (self_super self) X_d01)"
      by (simp add: predict_def)
    with X_d X_up close True t show ?thesis by auto
  next
    case False
    with pX have "predict super self X = (Inl NotImplementedError, self)"
      by (simp add: predict_def)
    with X_d X_up close False show ?thesis by auto
  qed
qed

theorem predict_embedding_check_witness:
  "ncols (Tensor 3 [[1 / 2, 0, 0]]) \<noteq> ncols (self_A rembo_ex)
   \<and> ncols (Tensor 3 [[1 / 2, 0, 0]]) = nrows (self_A rembo_ex)
   \<and> ncols (self_pinvA rembo_ex) = nrows (self_A rembo_ex)
   \<and> nrows (self_pinvA rembo_ex) = ncols (self_A rembo_ex)
   \<and> length (self_bounds_d rembo_ex) \<le> ncols (self_A rembo_ex)
   \<and> matmul (Tensor 3 [[1 / 2, 0, 0]]) (torch_t (self_pinvA rembo_ex)) = Inr (Tensor 1 [[1 / 2]])
   \<and> matmul (Tensor 1 [[1 / 2]]) (torch_t (self_A rembo_ex)) = Inr (Tensor 3 [[1 / 2, 0, 0]])
   \<and> torch_allclose (Tensor 3 [[1 / 2, 0, 0]]) (Tensor 3 [[1 / 2, 0, 0]]) = Inr True
   \<and> to_01 rembo_ex (Tensor 1 [[1 / 2]]) = Inr (Tensor 1 [[3 / 4]])
   \<and> predict super_ex rembo_ex (Tensor 3 [[1 / 2, 0, 0]])
       = delegated rembo_ex (super_predict super_ex (self_super rembo_ex) (Tensor 1 [[3 / 4]]))
   \<and> matmul (Tensor 3 [[1 / 2, 1 / 4, 0]]) (torch_t (self_pinvA rembo_ex))
       = Inr (Tensor 1 [[1 / 2]])
   \<and> torch_allclose (Tensor 3 [[1 / 2, 1 / 4, 0]]) (Tensor 3 [[1 / 2, 0, 0]]) = Inr False
   \<and> predict super_ex rembo_ex (Tensor 3 [[1 / 2, 1 / 4, 0]])
       = (Inl NotImplementedError, rembo_ex)"
proof -
  let ?X = "Tensor 3 [[1 / 2, 0, 0]]"
  let ?X' = "Tensor 3 [[1 / 2, 1 / 4, 0]]"
  have h: "ncols ?X \<noteq> ncols (self_A rembo_ex)" "ncols ?X = nrows (self_A rembo_ex)"
    "ncols (self_pinvA rembo_ex) = nrows (self_A rembo_ex)"
    "nrows (self_pinvA rembo_ex) = ncols (self_A rembo_ex)"
    "length (self_bounds_d rembo_ex) \<le> ncols (self_A rembo_ex)"
    by (simp_all add: rembo_ex_simps nrows_def)
  have h': "ncols ?X' \<noteq> ncols (self_A rembo_ex)" "ncols ?X' = nrows (self_A rembo_ex)"
    by (simp_all add: rembo_ex_simps nrows_def)
  have m1: "matmul ?X (torch_t (self_pinvA rembo_ex)) = Inr (Tensor 1 [[1 / 2]])"
    and m1': "matmul ?X' (torch_t (self_pinvA rembo_ex)) = Inr (Tensor 1 [[1 / 2]])"
    and m2: "matmul (Tensor 1 [[1 / 2]]) (torch_t (self_A rembo_ex)) = Inr ?X"
    by (simp_all add: rembo_ex_simps tensor_eval)
  have c: "torch_allclose ?X ?X = Inr True" and c': "torch_allclose ?X' ?X = Inr False"
    by (simp_all add: tensor_eval)
  have t: "to_01 rembo_ex (Tensor 1 [[1 / 2]]) = Inr (Tensor 1 [[3 / 4]])"
    by (simp add: to_01_def rembo_ex_simps map_col_def entry_eval)
  from predict_embedding_check [OF h, of super_ex] obtain X_d X_up close where
    a: "matmul ?X (torch_t (self_pinvA rembo_ex)) = Inr X_d"
      "matmul X_d (torch_t (self_A rembo_ex)) = Inr X_up"
      "torch_allclose ?X X_up = Inr close"
    and b: "if close
      then \<exists>X_d01. to_01 rembo_ex X_d = Inr X_d01
             \<and> predict super_ex rembo_ex ?X
                 = delegated rembo_ex (super_predict super_ex (self_super rembo_ex) X_d01)
      else predict super_ex rembo_ex ?X = (Inl NotImplementedError, rembo_ex)"
    by blast
  from a(1) m1 have "X_d = Tensor 1 [[1 / 2]]" by simp
  moreover from this a(2) m2 have "X_up = ?X" by simp
  moreover from this a(3) c have close by simp
  ultimately have 1: "predict super_ex rembo_ex ?X
       = delegated rembo_ex (super_predict super_ex (self_super rembo_ex) (Tensor 1 [[3 / 4]]))"
    using b t by auto
  from predict_embedding_check [OF h' h(3-5), of super_ex] obtain X_d' X_up' close' where
    a': "matmul ?X' (torch_t (self_pinvA rembo_ex)) = Inr X_d'"
      "matmul X_d' (torch_t (self_A rembo_ex)) = Inr X_up'"
      "torch_allclose ?X' X_up' = Inr close'"
    and b': "if close'
      then \<exists>X_d01. to_01 rembo_ex X_d' = Inr X_d01
             \<and> predict super_ex rembo_ex ?X'
                 = delegated rembo_ex (super_predict super_ex (self_super rembo_ex) X_d01)
      else predict super_ex rembo_ex ?X' = (Inl NotImplementedError, rembo_ex)"
    by blast
  from a'(1) m1' have "X_d' = Tensor 1 [[1 / 2]]" by simp
  moreover from this a'(2) m2 have "X_up' = ?X" by simp
  moreover from this a'(3) c' have "\<not> close'" by simp
  ultimately have 2: "predict super_ex rembo_ex ?X' = (Inl NotImplementedError, rembo_ex)"
    using b' by simp
  from h m1 m2 c t 1 m1' c' 2 show ?thesis by blast
qed

text \<open>
  The check does not compare \<open>X\<close> with \<open>project_up\<close> of the low-dimensional
  coordinates, which clamps; \<open>predict\<close> compares with the linear re-projection.
  The point \<open>[2, 0, 0]\<close> lies in the column space of \<open>A\<close> but outside \<open>[-1, 1]\<^sup>3\<close>: it
  is not within tolerance of \<open>project_up\<close> of its coordinates, and \<open>predict\<close> does not
  raise but hands the normalized coordinates to the superclass.
\<close>

theorem predict_clamp_counterexample:
  "ncols (Tensor 3 [[2, 0, 0]]) \<noteq> ncols (self_A rembo_ex)
   \<and> matmul (Tensor 3 [[2, 0, 0]]) (torch_t (self_pinvA rembo_ex)) = Inr (Tensor 1 [[2]])
   \<and> project_up rembo_ex (Tensor 1 [[2]]) = Inr (Tensor 3 [[1, 0, 0]])
   \<and> torch_allclose (Tensor 3 [[2, 0, 0]]) (Tensor 3 [[1, 0, 0]]) = Inr False
   \<and> predict super_ex rembo_ex (Tensor 3 [[2, 0, 0]])
       = (Inr (Tensor 1 [[3 / 2]], []), rembo_ex\<lparr>self_super := [[Tensor 1 [[3 / 2]]]]\<rparr>)"
proof -
  let ?X = "Tensor 3 [[2, 0, 0]]"
  have n: "ncols ?X \<noteq> ncols (self_A rembo_ex)"
    by (simp add: rembo_ex_simps)
  have m: "matmul ?X (torch_t (self_pinvA rembo_ex)) = Inr (Tensor 1 [[2]])"
    by (simp add: rembo_ex_simps tensor_eval)
  have u: "project_up rembo_ex (Tensor 1 [[2]]) = Inr (Tensor 3 [[1, 0, 0]])"
    by (simp add: project_up_def rembo_ex_simps tensor_eval)
  have c: "torch_allclose ?X (Tensor 3 [[1, 0, 0]]) = Inr False"
    by (simp add: tensor_eval)
  have x: "predict_X_d rembo_ex ?X = Inr (Tensor 1 [[2]])"
    by (simp add: predict_X_d_def rembo_ex_simps tensor_eval)
  have t: "to_01 rembo_ex (Tensor 1 [[2]]) = Inr (Tensor 1 [[3 / 2]])"
    by (simp add: to_01_def rembo_ex_simps map_col_def entry_eval)
  have "predict super_ex rembo_ex ?X
       = (Inr (Tensor 1 [[3 / 2]], []), rembo_ex\<lparr>self_super := [[Tensor 1 [[3 / 2]]]]\<rparr>)"
    by (simp only: predict_def x t sum.case) (simp add: delegated_def rembo_ex_simps)
  with n m u c show ?thesis by blast
qed

section \<open>update and cross_validate\<close>

lemma num_outputs_delegated [simp]:
  "self_num_outputs (snd (delegated self rc)) = self_num_outputs self"
  by (simp add: delegated_def)

lemma num_outputs_predict:
  "self_num_outputs (snd (predict super self X)) = self_num_outputs self"
  by (simp add: predict_def split: sum.splits)

lemma num_outputs_update:
  "self_num_outputs (snd (update super self Xs Ys Yvars candidate_metadata))
     = self_num_outputs self"
  by (simp add: update_def split: sum.splits)

lemma num_outputs_cross_validate:
  "self_num_outputs (snd (cross_validate super self Xs_train Ys_train Yvars_train X_test))
     = self_num_outputs self"
  by (simp add: cross_validate_def split: sum.splits)

lemma num_outputs_gen:
  "self_num_outputs (snd (gen super self n bounds objective_weights outcome_constraints
      linear_constraints fixed_features pending_observations model_gen_options rounding_func
      target_fidelities)) = self_num_outputs self"
  by (simp add: gen_def Let_def split: sum.splits prod.splits)

lemma num_outputs_best_point:
  "self_num_outputs (snd (best_point super self bounds objective_weights outcome_constraints
      linear_constraints fixed_features model_gen_options target_fidelities))
     = self_num_outputs self"
  by (simp add: best_point_def Let_def split: sum.splits prod.splits option.splits)

lemma num_outputs_fit:
  assumes "ssd_task_features search_space_digest = []"
    and "ssd_fidelity_features search_space_digest = []"
    and "bounds_ok (ssd_bounds search_space_digest)"
  shows "self_num_outputs
           (snd (fit super self Xs Ys Yvars search_space_digest metric_names candidate_metadata))
         = length Xs"
  by (simp add: fit_checked [OF assms] split: sum.splits)

text \<open>
  C8. \<open>update\<close> and \<open>cross_validate\<close> hand the superclass \<open>num_outputs\<close> copies of the
  normalized design matrix, whatever the length of the list of matrices they are called
  with. \<open>num_outputs\<close> is 0 after construction, is set to \<open>len(Xs)\<close> by a \<open>fit\<close> whose
  preconditions pass, and is left alone by every other operation; so before any \<open>fit\<close>
  the superclass receives the empty list.
\<close>

theorem update_cross_validate_replicate:
  "(get_single_X Xs = Inr X_D \<and> project_down self X_D = Inr X_d \<and> to_01 self X_d = Inr X_unit
      \<longrightarrow> update super self Xs Ys Yvars candidate_metadata
            = delegated self
                (super_update super (self_super self)
                   (replicate (self_num_outputs self) X_unit) Ys Yvars candidate_metadata))
   \<and> (get_single_X Xs = Inr X_D \<and> project_down self X_D = Inr X_d
       \<and> project_down self X_test = Inr X_test_d
       \<and> to_01 self X_d = Inr X_unit \<and> to_01 self X_test_d = Inr X_test_unit
      \<longrightarrow> cross_validate super self Xs Ys Yvars X_test
            = delegated self
                (super_cross_validate super (self_super self)
                   (replicate (self_num_outputs self) X_unit) Ys Yvars X_test_unit))
   \<and> (self_num_outputs self = 0 \<longrightarrow> replicate (self_num_outputs self) X_unit = [])
   \<and> self_num_outputs (init pinverse super_init A initial_X_d bounds_d) = 0
   \<and> (ssd_task_features search_space_digest = []
       \<and> ssd_fidelity_features search_space_digest = []
       \<and> bounds_ok (ssd_bounds search_space_digest)
      \<longrightarrow> self_num_outputs
            (snd (fit super self Xs Ys Yvars search_space_digest metric_names candidate_metadata))
          = length Xs)
   \<and> self_num_outputs (snd (update super self Xs Ys Yvars candidate_metadata))
       = self_num_outputs self
   \<and> self_num_outputs (snd (cross_validate super self Xs Ys Yvars X_test))
       = self_num_outputs self
   \<and> self_num_outputs (snd (predict super self X)) = self_num_outputs self
   \<and> self_num_outputs (snd (gen super self n bounds objective_weights outcome_constraints
        linear_constraints fixed_features pending_observations model_gen_options rounding_func
        target_fidelities)) = self_num_outputs self
   \<and> self_num_outputs (snd (best_point super self bounds objective_weights outcome_constraints
        linear_constraints fixed_features model_gen_options target_fidelities))
       = self_num_outputs self"
proof -
  have a: "get_single_X Xs = Inr X_D \<and> project_down self X_D = Inr X_d
      \<and> to_01 self X_d = Inr X_unit
      \<longrightarrow> update super self Xs Ys Yvars candidate_metadata
            = delegated self
                (super_update super (self_super self)
                   (replicate (self_num_outputs self) X_unit) Ys Yvars candidate_metadata)"
    by (simp add: update_def)
  have b: "get_single_X Xs = Inr X_D \<and> project_down self X_D = Inr X_d
       \<and> project_down self X_test = Inr X_test_d
       \<and> to_01 self X_d = Inr X_unit \<and> to_01 self X_test_d = Inr X_test_unit
      \<longrightarrow> cross_validate super self Xs Ys Yvars X_test
            = delegated self
                (super_cross_validate super (self_super self)
                   (replicate (self_num_outputs self) X_unit) Ys Yvars X_test_unit)"
    by (simp add: cross_validate_def)
  have c: "self_num_outputs self = 0 \<longrightarrow> replicate (self_num_outputs self) X_unit = []"
    by simp
  have d: "self_num_outputs (init pinverse super_init A initial_X_d bounds_d) = 0"
    by (simp add: init_def)
  have e: "ssd_task_features search_space_digest = []
       \<and> ssd_fidelity_features search_space_digest = []
       \<and> bounds_ok (ssd_bounds search_space_digest)
      \<longrightarrow> self_num_outputs
            (snd (fit super self Xs Ys Yvars search_space_digest metric_names candidate_metadata))
          = length Xs"
    by (simp add: num_outputs_fit)
  show ?thesis
    by (intro conjI a b c d e num_outputs_update num_outputs_cross_validate
        num_outputs_predict num_outputs_gen num_outputs_best_point)
qed

theorem update_cross_validate_replicate_witness:
  "self_num_outputs rembo_ex = 0
   \<and> get_single_X [Tensor 3 [[0, 0, 0], [1 / 2, 0, 0]], Tensor 3 [[0, 0, 0], [1 / 2, 0, 0]]]
       = Inr (Tensor 3 [[0, 0, 0], [1 / 2, 0, 0]])
   \<and> project_down rembo_ex (Tensor 3 [[0, 0, 0], [1 / 2, 0, 0]]) = Inr (Tensor 1 [[0], [1 / 2]])
   \<and> to_01 rembo_ex (Tensor 1 [[0], [1 / 2]]) = Inr (Tensor 1 [[1 / 2], [3 / 4]])
   \<and> update super_ex rembo_ex
        [Tensor 3 [[0, 0, 0], [1 / 2, 0, 0]], Tensor 3 [[0, 0, 0], [1 / 2, 0, 0]]] [] [] None
       = (Inr (), rembo_ex\<lparr>self_super := [[]]\<rparr>)
   \<and> cross_validate super_ex rembo_ex
        [Tensor 3 [[0, 0, 0], [1 / 2, 0, 0]], Tensor 3 [[0, 0, 0], [1 / 2, 0, 0]]] [] []
        (Tensor 3 [[1 / 2, 0, 0]])
       = (Inr (Tensor 1 [[3 / 4]], []), rembo_ex\<lparr>self_super := [[Tensor 1 [[3 / 4]]]]\<rparr>)
   \<and> update super_ex (rembo_ex\<lparr>self_num_outputs := 1\<rparr>)
        [Tensor 3 [[0, 0, 0], [1 / 2, 0, 0]], Tensor 3 [[0, 0, 0], [1 / 2, 0, 0]]] [] [] None
       = (Inr (), rembo_ex\<lparr>self_num_outputs := 1,
                    self_super := [[Tensor 1 [[1 / 2], [3 / 4]]]]\<rparr>)
   \<and> replicate (self_num_outputs rembo_ex) (Tensor 1 [[1 / 2], [3 / 4]]) = []
   \<and> ssd_task_features digest_ex = [] \<and> ssd_fidelity_features digest_ex = []
   \<and> bounds_ok (ssd_bounds digest_ex)
   \<and> self_num_outputs
        (snd (fit super_ex rembo_ex
           [Tensor 3 [[0, 0, 0], [1 / 2, 0, 0]], Tensor 3 [[0, 0, 0], [1 / 2, 0, 0]]] [] []
           digest_ex [] None))
       = length [Tensor 3 [[0, 0, 0], [1 / 2, 0, 0]], Tensor 3 [[0, 0, 0], [1 / 2, 0, 0]]]"
proof -
  let ?X = "Tensor 3 [[0, 0, 0], [1 / 2, 0, 0]]"
  let ?Xs = "[?X, ?X]"
  let ?s1 = "rembo_ex\<lparr>self_num_outputs := 1\<rparr>"
  have n: "self_num_outputs rembo_ex = 0" by (simp add: rembo_ex_simps)
  have g: "get_single_X ?Xs = Inr ?X"
    by (simp add: get_single_X_def torch_allclose_refl)
  have p: "project_down rembo_ex ?X = Inr (Tensor 1 [[0], [1 / 2]])"
    by (simp add: project_down_def project_up_vec_def rembo_ex_simps tensor_eval)
  have p': "project_down rembo_ex (Tensor 3 [[1 / 2, 0, 0]]) = Inr (Tensor 1 [[1 / 2]])"
    by (simp add: project_down_def project_up_vec_def rembo_ex_simps tensor_eval)
  have t: "to_01 rembo_ex (Tensor 1 [[0], [1 / 2]]) = Inr (Tensor 1 [[1 / 2], [3 / 4]])"
    by (simp add: to_01_def rembo_ex_simps map_col_def entry_eval)
  have t': "to_01 rembo_ex (Tensor 1 [[1 / 2]]) = Inr (Tensor 1 [[3 / 4]])"
    by (simp add: to_01_def rembo_ex_simps map_col_def entry_eval)
  have "project_down ?s1 ?X = project_down rembo_ex ?X"
    by (rule project_down_cong) simp_all
  with p have p1: "project_down ?s1 ?X = Inr (Tensor 1 [[0], [1 / 2]])"
    by (simp only:)
  have "to_01 ?s1 (Tensor 1 [[0], [1 / 2]]) = to_01 rembo_ex (Tensor 1 [[0], [1 / 2]])"
    by (rule to_01_cong) simp
  with t have t1: "to_01 ?s1 (Tensor 1 [[0], [1 / 2]]) = Inr (Tensor 1 [[1 / 2], [3 / 4]])"
    by (simp only:)
  note W = update_cross_validate_replicate
    [where Xs = ?Xs and X_D = ?X and X_d = "Tensor 1 [[0], [1 / 2]]"
       and X_unit = "Tensor 1 [[1 / 2], [3 / 4]]" and super = super_ex and Ys = "[]"
       and Yvars = "[]" and candidate_metadata = None and X_test = "Tensor 3 [[1 / 2, 0, 0]]"
       and X_test_d = "Tensor 1 [[1 / 2]]" and X_test_unit = "Tensor 1 [[3 / 4]]"
       and search_space_digest = digest_ex and metric_names = "[]"]
  from W [where self = rembo_ex, THEN conjunct1] g p t
  have "update super_ex rembo_ex ?Xs [] [] None
      = delegated rembo_ex
          (super_update super_ex (self_super rembo_ex)
             (replicate (self_num_outputs rembo_ex) (Tensor 1 [[1 / 2], [3 / 4]])) [] [] None)"
    by blast
  then have u: "update super_ex rembo_ex ?Xs [] [] None = (Inr (), rembo_ex\<lparr>self_super := [[]]\<rparr>)"
    by (simp add: n delegated_def) (simp add: rembo_ex_simps)
  from W [where self = rembo_ex, THEN conjunct2, THEN conjunct1] g p p' t t'
  have "cross_validate super_ex rembo_ex ?Xs [] [] (Tensor 3 [[1 / 2, 0, 0]])
      = delegated rembo_ex
          (super_cross_validate super_ex (self_super rembo_ex)
             (replicate (self_num_outputs rembo_ex) (Tensor 1 [[1 / 2], [3 / 4]])) [] []
             (Tensor 1 [[3 / 4]]))"
    by blast
  then have c: "cross_validate super_ex rembo_ex ?Xs [] [] (Tensor 3 [[1 / 2, 0, 0]])
       = (Inr (Tensor 1 [[3 / 4]], []), rembo_ex\<lparr>self_super := [[Tensor 1 [[3 / 4]]]]\<rparr>)"
    by (simp add: n delegated_def) (simp add: rembo_ex_simps)
  from W [where self = ?s1, THEN conjunct1] g p1 t1
  have "update super_ex ?s1 ?Xs [] [] None
      = delegated ?s1
          (super_update super_ex (self_super ?s1)
             (replicate (self_num_outputs ?s1) (Tensor 1 [[1 / 2], [3 / 4]])) [] [] None)"
    by blast
  then have u1: "update super_ex ?s1 ?Xs [] [] None
       = (Inr (), rembo_ex\<lparr>self_num_outputs := 1,
                    self_super := [[Tensor 1 [[1 / 2], [3 / 4]]]]\<rparr>)"
    by (simp add: delegated_def) (simp add: rembo_ex_simps)
  from W [where self = rembo_ex, THEN conjunct2, THEN conjunct2, THEN conjunct1] n
  have r: "replicate (self_num_outputs rembo_ex) (Tensor 1 [[1 / 2], [3 / 4]]) = []"
    by blast
  have pre: "ssd_task_features digest_ex = []" "ssd_fidelity_features digest_ex = []"
    "bounds_ok (ssd_bounds digest_ex)"
    by (simp_all add: digest_ex_def bounds_ok_def)
  from W [where self = rembo_ex, THEN conjunct2, THEN conjunct2, THEN conjunct2,
      THEN conjunct2, THEN conjunct1] pre
  have f: "self_num_outputs (snd (fit super_ex rembo_ex ?Xs [] [] digest_ex [] None))
      = length ?Xs"
    by blast
  from n g p t u c u1 r pre f show ?thesis by blast
qed

section \<open>gen\<close>

lemma from_01_cong: "self_bounds_d s' = self_bounds_d s \<Longrightarrow> from_01 s' X = from_01 s X"
  by (simp add: from_01_def)

lemma project_up_cong: "self_A s' = self_A s \<Longrightarrow> project_up s' X = project_up s X"
  by (simp add: project_up_def)

text \<open>\<open>gen\<close> once its assertions have passed.\<close>

lemma gen_checked:
  assumes "bounds_ok bounds"
  shows "gen super self n bounds objective_weights outcome_constraints None None None
           model_gen_options rounding_func target_fidelities
      = (case super_gen super (self_super self) n
                (replicate (length (self_bounds_d self)) (0, 1))
                objective_weights outcome_constraints model_gen_options of
           (Inl e, c) \<Rightarrow> (Inl e, self\<lparr>self_super := c\<rparr>)
         | (Inr (Xopt_01, w, gen_metadata, candidate_metadata), c) \<Rightarrow>
             (case from_01 self Xopt_01 of
                Inl e \<Rightarrow> (Inl e, self\<lparr>self_super := c\<rparr>)
              | Inr Xopt \<Rightarrow>
                  (case project_up self Xopt of
                     Inl e \<Rightarrow>
                       (Inl e, self\<lparr>self_super := c, self_X_d := self_X_d self @ rows Xopt,
                                 self_X_d_gen := self_X_d_gen self @ rows Xopt\<rparr>)
                   | Inr Z \<Rightarrow>
                       (Inr (Z, w, Map.empty, None),
                        self\<lparr>self_super := c, self_X_d := self_X_d self @ rows Xopt,
                             self_X_d_gen := self_X_d_gen self @ rows Xopt\<rparr>))))"
proof -
  have f: "from_01 (self\<lparr>self_super := c\<rparr>) X = from_01 self X" for c X
    by (rule from_01_cong) simp
  have p: "project_up (self\<lparr>self_super := c, self_X_d := xs, self_X_d_gen := ys\<rparr>) X
      = project_up self X" for c xs ys X
    by (rule project_up_cong) simp
  show ?thesis
    unfolding gen_def Let_def
    by (simp add: assms f p split: prod.splits sum.splits)
qed

lemma gen_unchecked:
  assumes "\<not> bounds_ok bounds \<or> linear_constraints \<noteq> None \<or> fixed_features \<noteq> None
    \<or> pending_observations \<noteq> None"
  shows "gen super self n bounds objective_weights outcome_constraints linear_constraints
           fixed_features pending_observations model_gen_options rounding_func target_fidelities
      = (Inl AssertionError, self)"
  using assms by (auto simp: gen_def)

text \<open>
  C4. Every successful \<open>gen\<close> call had all declared bounds equal to \<open>(-1, 1)\<close> and no
  linear constraints, fixed features or pending observations. It called the superclass
  with the bounds \<open>[(0, 1)] * len(bounds_d)\<close>, mapped the returned candidates back with
  \<open>from_01\<close>, appended exactly the rows of the result to both the store and the generated
  log, and returned their \<open>project_up\<close> image with the superclass's weights, an empty
  metadata dictionary and no candidate metadata.
\<close>

theorem gen_success:
  assumes "gen super self n bounds objective_weights outcome_constraints linear_constraints
             fixed_features pending_observations model_gen_options rounding_func
             target_fidelities
           = (Inr (X, w, gen_metadata, candidate_metadata), self')"
  shows "bounds_ok bounds \<and> linear_constraints = None \<and> fixed_features = None
         \<and> pending_observations = None
         \<and> (\<exists>Xopt_01 gm cm c Xopt.
               super_gen super (self_super self) n
                 (replicate (length (self_bounds_d self)) (0, 1))
                 objective_weights outcome_constraints model_gen_options
               = (Inr (Xopt_01, w, gm, cm), c)
               \<and> from_01 self Xopt_01 = Inr Xopt
               \<and> project_up self Xopt = Inr X
               \<and> self' = self\<lparr>self_super := c, self_X_d := self_X_d self @ rows Xopt,
                                self_X_d_gen := self_X_d_gen self @ rows Xopt\<rparr>)
         \<and> gen_metadata = Map.empty \<and> candidate_metadata = None"
proof -
  have "\<not> (\<not> bounds_ok bounds \<or> linear_constraints \<noteq> None \<or> fixed_features \<noteq> None
    \<or> pending_observations \<noteq> None)"
  proof
    assume "\<not> bounds_ok bounds \<or> linear_constraints \<noteq> None \<or> fixed_features \<noteq> None
      \<or> pending_observations \<noteq> None"
    from gen_unchecked [OF this, of super self n objective_weights outcome_constraints
        model_gen_options rounding_func target_fidelities] assms
    show False by simp
  qed
  then have pre: "bounds_ok bounds" "linear_constraints = None" "fixed_features = None"
    "pending_observations = None"
    by blast+
  from assms show ?thesis
    unfolding pre gen_checked [OF pre(1)]
    by (auto simp: pre(1) split: prod.splits sum.splits)
qed

lemma gen_ex_eval:
  "gen super_ex rembo_ex 2 [(- 1, 1), (- 1, 1), (- 1, 1)] [1] None None None None None None None
     = (Inr (Tensor 3 [[1 / 2, 0, 0], [1 / 2, 0, 0]], [1], Map.empty, None),
        rembo_ex\<lparr>self_super := [], self_X_d := [[0], [1 / 2], [1 / 2], [1 / 2]],
                 self_X_d_gen := [[1 / 2], [1 / 2]]\<rparr>)"
  and gen_ex_bounds: "bounds_ok [(- 1, 1), (- 1, 1), (- 1, 1)]"
  and gen_ex_super: "super_gen super_ex (self_super rembo_ex) 2
         (replicate (length (self_bounds_d rembo_ex)) (0, 1)) [1] None None
       = (Inr (Tensor 1 [[3 / 4], [3 / 4]], [1], Map.empty, Some [None]), [])"
  and gen_ex_from_01:
    "from_01 rembo_ex (Tensor 1 [[3 / 4], [3 / 4]]) = Inr (Tensor 1 [[1 / 2], [1 / 2]])"
  and gen_ex_project_up: "project_up rembo_ex (Tensor 1 [[1 / 2], [1 / 2]])
       = Inr (Tensor 3 [[1 / 2, 0, 0], [1 / 2, 0, 0]])"
proof -
  show b: "bounds_ok [(- 1, 1), (- 1, 1), (- 1, 1)]" by (simp add: bounds_ok_def)
  show s: "super_gen super_ex (self_super rembo_ex) 2
         (replicate (length (self_bounds_d rembo_ex)) (0, 1)) [1] None None
       = (Inr (Tensor 1 [[3 / 4], [3 / 4]], [1], Map.empty, Some [None]), [])"
    by (simp add: rembo_ex_simps numeral_2_eq_2)
  show f: "from_01 rembo_ex (Tensor 1 [[3 / 4], [3 / 4]]) = Inr (Tensor 1 [[1 / 2], [1 / 2]])"
    by (simp add: from_01_def rembo_ex_simps map_col_def entry_eval)
  show u: "project_up rembo_ex (Tensor 1 [[1 / 2], [1 / 2]])
       = Inr (Tensor 3 [[1 / 2, 0, 0], [1 / 2, 0, 0]])"
    by (simp add: project_up_def rembo_ex_simps tensor_eval)
  show "gen super_ex rembo_ex 2 [(- 1, 1), (- 1, 1), (- 1, 1)] [1] None None None None None None
      None
     = (Inr (Tensor 3 [[1 / 2, 0, 0], [1 / 2, 0, 0]], [1], Map.empty, None),
        rembo_ex\<lparr>self_super := [], self_X_d := [[0], [1 / 2], [1 / 2], [1 / 2]],
                 self_X_d_gen := [[1 / 2], [1 / 2]]\<rparr>)"
    by (simp only: gen_checked [OF b] s f u prod.case sum.case) (simp add: rembo_ex_simps)
qed

theorem gen_success_witness:
  "gen super_ex rembo_ex 2 [(- 1, 1), (- 1, 1), (- 1, 1)] [1] None None None None None None None
     = (Inr (Tensor 3 [[1 / 2, 0, 0], [1 / 2, 0, 0]], [1], Map.empty, None),
        rembo_ex\<lparr>self_super := [], self_X_d := [[0], [1 / 2], [1 / 2], [1 / 2]],
                 self_X_d_gen := [[1 / 2], [1 / 2]]\<rparr>)
   \<and> bounds_ok [(- 1, 1), (- 1, 1), (- 1, 1)]
   \<and> super_gen super_ex (self_super rembo_ex) 2
         (replicate (length (self_bounds_d rembo_ex)) (0, 1)) [1] None None
       = (Inr (Tensor 1 [[3 / 4], [3 / 4]], [1], Map.empty, Some [None]), [])
   \<and> from_01 rembo_ex (Tensor 1 [[3 / 4], [3 / 4]]) = Inr (Tensor 1 [[1 / 2], [1 / 2]])
   \<and> project_up rembo_ex (Tensor 1 [[1 / 2], [1 / 2]])
       = Inr (Tensor 3 [[1 / 2, 0, 0], [1 / 2, 0, 0]])"
  using gen_success [OF gen_ex_eval] gen_ex_eval gen_ex_bounds gen_ex_super gen_ex_from_01
    gen_ex_project_up
  by blast

section \<open>The correspondence store and the generated log\<close>

lemma appended_delegated [simp]: "appended self [] (snd (delegated self rc))"
  by (simp add: appended_def delegated_def)

lemma appended_refl [simp]: "appended self [] self"
  by (simp add: appended_def)

lemma appended_super [simp]: "appended self [] (self\<lparr>self_super := c\<rparr>)"
  by (simp add: appended_def)

lemma appended_fit:
  "appended self []
     (snd (fit super self Xs Ys Yvars search_space_digest metric_names candidate_metadata))"
  by (simp add: fit_def Let_def appended_def delegated_def split: sum.splits)

lemma appended_predict: "appended self [] (snd (predict super self X))"
  by (simp add: predict_def split: sum.splits)

lemma appended_best_point:
  "appended self []
     (snd (best_point super self bounds objective_weights outcome_constraints
        linear_constraints fixed_features model_gen_options target_fidelities))"
  by (simp add: best_point_def Let_def appended_def split: sum.splits prod.splits option.splits)

lemma appended_cross_validate:
  "appended self []
     (snd (cross_validate super self Xs_train Ys_train Yvars_train X_test))"
  by (simp add: cross_validate_def split: sum.splits)

lemma appended_update:
  "appended self [] (snd (update super self Xs Ys Yvars candidate_metadata))"
  by (simp add: update_def split: sum.splits)

lemma from_01_loop_ncols: "from_01_loop i bs X = Inr Y \<Longrightarrow> ncols Y = ncols X"
proof (induction bs arbitrary: i X)
  case Nil
  then show ?case by simp
next
  case (Cons b bs)
  obtain lb ub where b: "b = (lb, ub)" by (cases b)
  from Cons.prems have "from_01_loop (Suc i) bs (map_col i (from_01_entry lb ub) X) = Inr Y"
    by (simp add: b split: if_splits)
  from Cons.IH [OF this] show ?case by simp
qed

text \<open>
  \<open>project_up\<close> raises only the RuntimeError of the matrix product, on an input whose
  column count is not \<open>d\<close>.
\<close>

lemma project_up_raises:
  "project_up self X = Inl e \<Longrightarrow> e = RuntimeError \<and> ncols X \<noteq> ncols (self_A self)"
  by (auto simp: project_up_def matmul_def split: if_splits)

lemma appended_gen:
  "\<exists>new.
     appended self new
       (snd (gen super self n bounds objective_weights outcome_constraints linear_constraints
          fixed_features pending_observations model_gen_options rounding_func
          target_fidelities))
     \<and> (\<not> isl (fst (gen super self n bounds objective_weights outcome_constraints
                linear_constraints fixed_features pending_observations model_gen_options
                rounding_func target_fidelities))
        \<longrightarrow> (\<exists>Xopt_01 w gm cm c Xopt.
               super_gen super (self_super self) n
                   (replicate (length (self_bounds_d self)) (0, 1))
                   objective_weights outcome_constraints model_gen_options
                 = (Inr (Xopt_01, w, gm, cm), c)
               \<and> from_01 self Xopt_01 = Inr Xopt
               \<and> new = rows Xopt))
     \<and> (isl (fst (gen super self n bounds objective_weights outcome_constraints
                linear_constraints fixed_features pending_observations model_gen_options
                rounding_func target_fidelities))
        \<longrightarrow> new = []
            \<or> (\<exists>Xopt_01 w gm cm c Xopt.
                 super_gen super (self_super self) n
                     (replicate (length (self_bounds_d self)) (0, 1))
                     objective_weights outcome_constraints model_gen_options
                   = (Inr (Xopt_01, w, gm, cm), c)
                 \<and> from_01 self Xopt_01 = Inr Xopt
                 \<and> ncols Xopt_01 \<noteq> ncols (self_A self)
                 \<and> project_up self Xopt = Inl RuntimeError
                 \<and> fst (gen super self n bounds objective_weights outcome_constraints
                      linear_constraints fixed_features pending_observations
                      model_gen_options rounding_func target_fidelities) = Inl RuntimeError
                 \<and> new = rows Xopt))"
proof (cases "bounds_ok bounds \<and> linear_constraints = None \<and> fixed_features = None
    \<and> pending_observations = None")
  case False
  then have "\<not> bounds_ok bounds \<or> linear_constraints \<noteq> None \<or> fixed_features \<noteq> None
      \<or> pending_observations \<noteq> None"
    by simp
  then have "gen super self n bounds objective_weights outcome_constraints linear_constraints
          fixed_features pending_observations model_gen_options rounding_func
          target_fidelities = (Inl AssertionError, self)"
    by (rule gen_unchecked)
  then show ?thesis by (intro exI [of _ "[]"]) simp
next
  case True
  then have b: "bounds_ok bounds" and n: "linear_constraints = None" "fixed_features = None"
    "pending_observations = None" by simp_all
  let ?call = "super_gen super (self_super self) n
      (replicate (length (self_bounds_d self)) (0, 1))
      objective_weights outcome_constraints model_gen_options"
  obtain r c where call: "?call = (r, c)" by (cases ?call)
  show ?thesis
  proof (cases r)
    case (Inl e)
    show ?thesis
      unfolding n gen_checked [OF b] call Inl
      by (intro exI [of _ "[]"]) simp
  next
    case (Inr res)
    obtain Xopt_01 w gm cm where res: "res = (Xopt_01, w, gm, cm)" by (cases res)
    show ?thesis
    proof (cases "from_01 self Xopt_01")
      case (Inl e)
      show ?thesis
        unfolding n gen_checked [OF b] call Inr res
        by (intro exI [of _ "[]"]) (simp add: Inl)
    next
      case Xopt: (Inr Xopt)
      then have nc: "ncols Xopt = ncols Xopt_01"
        by (simp add: from_01_def from_01_loop_ncols)
      show ?thesis
      proof (cases "project_up self Xopt")
        case (Inl e)
        from project_up_raises [OF this] nc
        have e: "e = RuntimeError" and ne: "ncols Xopt_01 \<noteq> ncols (self_A self)"
          by simp_all
        with Inl show ?thesis
          unfolding n gen_checked [OF b] call Inr res
          by (intro exI [of _ "rows Xopt"]) (simp add: Xopt appended_def)
      next
        case (Inr Z)
        show ?thesis
          unfolding n gen_checked [OF b] call \<open>r = Inr res\<close> res
          by (intro exI [of _ "rows Xopt"]) (simp add: Xopt Inr appended_def)
      qed
    qed
  qed
qed

text \<open>
  C7 (amended). The correspondence store and the generated log are append-only.
  Construction sets the store to the initial points and the log to the empty list.
  \<open>fit\<close>, \<open>predict\<close>, \<open>best_point\<close>, \<open>cross_validate\<close> and \<open>update\<close> leave both as they
  were, whether they return or raise. \<open>gen\<close> leaves the old entries in place and appends
  the same points to both: a \<open>gen\<close> that returns has appended the rows of its batch (the
  superclass's candidates mapped back by \<open>from_01\<close>); a \<open>gen\<close> that raises has appended
  nothing, unless it raised in the final projection, which comes after the append: then
  the superclass's candidates did not have \<open>d\<close> columns, the exception is the
  RuntimeError of \<open>project_up\<close>, and the rows of the batch are in the store and the log.
\<close>

theorem store_append_only:
  "self_X_d (init pinverse super_init A initial_X_d bounds_d) = rows initial_X_d
   \<and> self_X_d_gen (init pinverse super_init A initial_X_d bounds_d) = []
   \<and> appended self []
       (snd (fit super self Xs Ys Yvars search_space_digest metric_names candidate_metadata))
   \<and> appended self [] (snd (predict super self X))
   \<and> appended self []
       (snd (best_point super self bounds objective_weights outcome_constraints
          linear_constraints fixed_features model_gen_options target_fidelities))
   \<and> appended self [] (snd (cross_validate super self Xs Ys Yvars X_test))
   \<and> appended self [] (snd (update super self Xs Ys Yvars candidate_metadata))
   \<and> (\<exists>new.
         appended self new
           (snd (gen super self n bounds objective_weights outcome_constraints
              linear_constraints fixed_features pending_observations model_gen_options
              rounding_func target_fidelities))
         \<and> (\<not> isl (fst (gen super self n bounds objective_weights outcome_constraints
                    linear_constraints fixed_features pending_observations model_gen_options
                    rounding_func target_fidelities))
            \<longrightarrow> (\<exists>Xopt_01 w gm cm c Xopt.
                   super_gen super (self_super self) n
                       (replicate (length (self_bounds_d self)) (0, 1))
                       objective_weights outcome_constraints model_gen_options
                     = (Inr (Xopt_01, w, gm, cm), c)
                   \<and> from_01 self Xopt_01 = Inr Xopt
                   \<and> new = rows Xopt))
         \<and> (isl (fst (gen super self n bounds objective_weights outcome_constraints
                    linear_constraints fixed_features pending_observations model_gen_options
                    rounding_func target_fidelities))
            \<longrightarrow> new = []
                \<or> (\<exists>Xopt_01 w gm cm c Xopt.
                     super_gen super (self_super self) n
                         (replicate (length (self_bounds_d self)) (0, 1))
                         objective_weights outcome_constraints model_gen_options
                       = (Inr (Xopt_01, w, gm, cm), c)
                     \<and> from_01 self Xopt_01 = Inr Xopt
                     \<and> ncols Xopt_01 \<noteq> ncols (self_A self)
                     \<and> project_up self Xopt = Inl RuntimeError
                     \<and> fst (gen super self n bounds objective_weights outcome_constraints
                          linear_constraints fixed_features pending_observations
                          model_gen_options rounding_func target_fidelities)
                        = Inl RuntimeError
                     \<and> new = rows Xopt)))"
proof -
  have i: "self_X_d (init pinverse super_init A initial_X_d bounds_d) = rows initial_X_d"
    "self_X_d_gen (init pinverse super_init A initial_X_d bounds_d) = []"
    by (simp_all add: init_def)
  show ?thesis
    by (intro conjI i appended_fit appended_predict appended_best_point
        appended_cross_validate appended_update appended_gen)
qed

theorem store_append_only_witness:
  "self_X_d rembo_ex = [[0], [1 / 2]] \<and> self_X_d_gen rembo_ex = []
   \<and> fst (predict super_ex rembo_ex (Tensor 3 [[1 / 2, 1 / 4, 0]])) = Inl NotImplementedError
   \<and> appended rembo_ex [] (snd (predict super_ex rembo_ex (Tensor 3 [[1 / 2, 1 / 4, 0]])))
   \<and> \<not> isl (fst (gen super_ex rembo_ex 2 [(- 1, 1), (- 1, 1), (- 1, 1)] [1] None None None None
          None None None))
   \<and> appended rembo_ex [[1 / 2], [1 / 2]]
       (snd (gen super_ex rembo_ex 2 [(- 1, 1), (- 1, 1), (- 1, 1)] [1] None None None None None
          None None))
   \<and> isl (fst (gen (super_ex\<lparr>super_gen := \<lambda>c n bounds weights constraints options.
                   (Inl CollaboratorError, c)\<rparr>)
           rembo_ex 2 [(- 1, 1), (- 1, 1), (- 1, 1)] [1] None None None None None None None))
   \<and> fst (gen (super_ex\<lparr>super_gen := \<lambda>c n bounds weights constraints options.
                   (Inl CollaboratorError, c)\<rparr>)
           rembo_ex 2 [(- 1, 1), (- 1, 1), (- 1, 1)] [1] None None None None None None None)
       = Inl CollaboratorError
   \<and> appended rembo_ex []
       (snd (gen (super_ex\<lparr>super_gen := \<lambda>c n bounds weights constraints options.
                   (Inl CollaboratorError, c)\<rparr>)
           rembo_ex 2 [(- 1, 1), (- 1, 1), (- 1, 1)] [1] None None None None None None None))"
proof -
  let ?bounds = "[(- 1, 1), (- 1, 1), (- 1 :: real, 1 :: real)]"
  let ?failing = "super_ex\<lparr>super_gen := \<lambda>c n bounds weights constraints options.
                   (Inl CollaboratorError, c)\<rparr>"
  let ?X = "Tensor 3 [[1 / 2, 1 / 4, 0]]"
  note W = store_append_only [where pinverse = "\<lambda>A. pinvA_ex" and super_init = "[]"
      and A = A_ex and initial_X_d = "Tensor 1 [[0], [1 / 2]]" and bounds_d = "[(- 1, 1)]"
      and self = rembo_ex and X = ?X and n = 2 and bounds = ?bounds
      and objective_weights = "[1]" and outcome_constraints = None
      and linear_constraints = None and fixed_features = None and pending_observations = None
      and model_gen_options = None and rounding_func = None and target_fidelities = None]
  note Gs = W [where super = super_ex, THEN conjunct2, THEN conjunct2, THEN conjunct2,
      THEN conjunct2, THEN conjunct2, THEN conjunct2, THEN conjunct2]
  note Gf = W [where super = ?failing, THEN conjunct2, THEN conjunct2, THEN conjunct2,
      THEN conjunct2, THEN conjunct2, THEN conjunct2, THEN conjunct2]
  have i: "self_X_d rembo_ex = [[0], [1 / 2]]" "self_X_d_gen rembo_ex = []"
    using W [where super = super_ex, THEN conjunct1]
      W [where super = super_ex, THEN conjunct2, THEN conjunct1]
    unfolding rembo_ex_def by simp_all
  have "predict_X_d rembo_ex ?X = Inl NotImplementedError"
    by (simp add: predict_X_d_def rembo_ex_simps tensor_eval)
  then have p: "fst (predict super_ex rembo_ex ?X) = Inl NotImplementedError"
    by (simp add: predict_def)
  from W [where super = super_ex]
  have p': "appended rembo_ex [] (snd (predict super_ex rembo_ex ?X))"
    by blast
  have s: "\<not> isl (fst (gen super_ex rembo_ex 2 ?bounds [1] None None None None None None None))"
    by (simp add: gen_ex_eval)
  from Gs obtain new where
    new: "appended rembo_ex new
            (snd (gen super_ex rembo_ex 2 ?bounds [1] None None None None None None None))"
    and imp: "\<not> isl (fst (gen super_ex rembo_ex 2 ?bounds [1] None None None None None None None))
       \<longrightarrow> (\<exists>Xopt_01 w gm cm c Xopt.
               super_gen super_ex (self_super rembo_ex) 2
                   (replicate (length (self_bounds_d rembo_ex)) (0, 1)) [1] None None
                 = (Inr (Xopt_01, w, gm, cm), c)
               \<and> from_01 rembo_ex Xopt_01 = Inr Xopt
               \<and> new = rows Xopt)"
    by blast
  from imp s obtain Xopt_01 w gm cm c Xopt where
    a: "super_gen super_ex (self_super rembo_ex) 2
          (replicate (length (self_bounds_d rembo_ex)) (0, 1)) [1] None None
        = (Inr (Xopt_01, w, gm, cm), c)"
    and b: "from_01 rembo_ex Xopt_01 = Inr Xopt" and n: "new = rows Xopt"
    by blast
  from a have x: "Xopt_01 = Tensor 1 [[3 / 4], [3 / 4]]"
    unfolding gen_ex_super by simp
  from b have "Xopt = Tensor 1 [[1 / 2], [1 / 2]]"
    unfolding x gen_ex_from_01 by simp
  with n have "new = [[1 / 2], [1 / 2]]" by simp
  with new have g: "appended rembo_ex [[1 / 2], [1 / 2]]
       (snd (gen super_ex rembo_ex 2 ?bounds [1] None None None None None None None))"
    by simp
  have f: "gen ?failing rembo_ex 2 ?bounds [1] None None None None None None None
      = (Inl CollaboratorError, rembo_ex\<lparr>self_super := []\<rparr>)"
    by (simp add: gen_checked [OF gen_ex_bounds]) (simp add: rembo_ex_simps)
  then have f1: "isl (fst (gen ?failing rembo_ex 2 ?bounds [1] None None None None None None None))"
    by simp
  from Gf obtain new' where
    new': "appended rembo_ex new'
            (snd (gen ?failing rembo_ex 2 ?bounds [1] None None None None None None None))"
    and imp': "isl (fst (gen ?failing rembo_ex 2 ?bounds [1] None None None None None None None))
       \<longrightarrow> new' = []
           \<or> (\<exists>Xopt_01 w gm cm c Xopt.
                super_gen ?failing (self_super rembo_ex) 2
                    (replicate (length (self_bounds_d rembo_ex)) (0, 1)) [1] None None
                  = (Inr (Xopt_01, w, gm, cm), c)
                \<and> from_01 rembo_ex Xopt_01 = Inr Xopt
                \<and> ncols Xopt_01 \<noteq> ncols (self_A rembo_ex)
                \<and> project_up rembo_ex Xopt = Inl RuntimeError
                \<and> fst (gen ?failing rembo_ex 2 ?bounds [1] None None None None None None None)
                   = Inl RuntimeError
                \<and> new' = rows Xopt)"
    by blast
  from imp' f1 have "new' = []" by (auto simp: f)
  with new' have f': "appended rembo_ex []
       (snd (gen ?failing rembo_ex 2 ?bounds [1] None None None None None None None))"
    by simp
  from f have f'': "fst (gen ?failing rembo_ex 2 ?bounds [1] None None None None None None None)
      = Inl CollaboratorError"
    by simp
  from i p p' s g f1 f'' f' show ?thesis by blast
qed

text \<open>
  A failing \<open>gen\<close> that has appended: a model built with two bounds for a one-column \<open>A\<close>.
  The superclass returns a candidate with two columns, one for each bound it was given;
  \<open>gen\<close> maps it back, appends it to the store and to the log, and then raises in
  \<open>project_up\<close>.
\<close>

theorem gen_failed_projection_appends:
  "self_X_d (init (\<lambda>A. pinvA_ex) [] A_ex (Tensor 1 [[0], [1 / 2]]) [(- 1, 1), (- 1, 1)])
     = [[0], [1 / 2]]
   \<and> self_X_d_gen (init (\<lambda>A. pinvA_ex) [] A_ex (Tensor 1 [[0], [1 / 2]]) [(- 1, 1), (- 1, 1)])
     = []
   \<and> fst (gen super_ex
            (init (\<lambda>A. pinvA_ex) [] A_ex (Tensor 1 [[0], [1 / 2]]) [(- 1, 1), (- 1, 1)])
            1 [(- 1, 1), (- 1, 1), (- 1, 1)] [1] None None None None None None None)
     = Inl RuntimeError
   \<and> self_X_d (snd (gen super_ex
            (init (\<lambda>A. pinvA_ex) [] A_ex (Tensor 1 [[0], [1 / 2]]) [(- 1, 1), (- 1, 1)])
            1 [(- 1, 1), (- 1, 1), (- 1, 1)] [1] None None None None None None None))
     = [[0], [1 / 2], [1 / 2, 1 / 2]]
   \<and> self_X_d_gen (snd (gen super_ex
            (init (\<lambda>A. pinvA_ex) [] A_ex (Tensor 1 [[0], [1 / 2]]) [(- 1, 1), (- 1, 1)])
            1 [(- 1, 1), (- 1, 1), (- 1, 1)] [1] None None None None None None None))
     = [[1 / 2, 1 / 2]]"
proof -
  let ?s = "init (\<lambda>A. pinvA_ex) [] A_ex (Tensor 1 [[0], [1 / 2]]) [(- 1, 1), (- 1 :: real, 1 :: real)]"
  have c: "super_gen super_ex (self_super ?s) 1
         (replicate (length (self_bounds_d ?s)) (0, 1)) [1] None None
       = (Inr (Tensor 2 [[3 / 4, 3 / 4]], [1], Map.empty, Some [None]), [])"
    by (simp add: rembo_ex_simps numeral_2_eq_2)
  have f: "from_01 ?s (Tensor 2 [[3 / 4, 3 / 4]]) = Inr (Tensor 2 [[1 / 2, 1 / 2]])"
    by (simp add: from_01_def init_def map_col_def entry_eval)
  have p: "project_up ?s (Tensor 2 [[1 / 2, 1 / 2]]) = Inl RuntimeError"
    by (simp add: project_up_def init_def A_ex_def matmul_def torch_t_def nrows_def)
  have "gen super_ex ?s 1 [(- 1, 1), (- 1, 1), (- 1, 1)] [1] None None None None None None None
      = (Inl RuntimeError,
         ?s\<lparr>self_super := [], self_X_d := [[0], [1 / 2], [1 / 2, 1 / 2]],
             self_X_d_gen := [[1 / 2, 1 / 2]]\<rparr>)"
    by (simp only: gen_checked [OF gen_ex_bounds] c f p prod.case sum.case)
      (simp add: init_def)
  then show ?thesis by (simp add: init_def)
qed

end
